theory Spec2Isabelle
  imports Complex_Main
begin

section \<open>JavaScript numbers\<close>

text \<open>
  The engine computes with JavaScript numbers. A finite number is modelled by the real
  number it stands for, so finite arithmetic is exact here: the rounding and the overflow
  of doubles are not part of this type (the section on doubles below rounds single
  operations, for the one property that depends on it). The three special values are kept, with the results that
  ECMAScript gives them, because the engine's formulas reach them (\<open>0 / 0\<close> is \<open>NaN\<close>,
  an unreached target is \<open>Infinity\<close>). The sign of a zero is not tracked: a non-zero
  number divided by zero is an infinity with the sign of the numerator, and zero to a
  negative power is plus infinity.
\<close>

datatype jsnum = Num real | PosInf | NegInf | NaN

fun js_neg :: "jsnum \<Rightarrow> jsnum" where
  "js_neg (Num a) = Num (- a)"
| "js_neg PosInf = NegInf"
| "js_neg NegInf = PosInf"
| "js_neg NaN = NaN"

fun js_add :: "jsnum \<Rightarrow> jsnum \<Rightarrow> jsnum" where
  "js_add NaN _ = NaN"
| "js_add _ NaN = NaN"
| "js_add (Num a) (Num b) = Num (a + b)"
| "js_add PosInf NegInf = NaN"
| "js_add NegInf PosInf = NaN"
| "js_add PosInf _ = PosInf"
| "js_add _ PosInf = PosInf"
| "js_add NegInf _ = NegInf"
| "js_add _ NegInf = NegInf"

definition js_sub :: "jsnum \<Rightarrow> jsnum \<Rightarrow> jsnum" where
  "js_sub a b = js_add a (js_neg b)"

fun js_mul :: "jsnum \<Rightarrow> jsnum \<Rightarrow> jsnum" where
  "js_mul NaN _ = NaN"
| "js_mul _ NaN = NaN"
| "js_mul (Num a) (Num b) = Num (a * b)"
| "js_mul (Num a) PosInf = (if a = 0 then NaN else if 0 < a then PosInf else NegInf)"
| "js_mul (Num a) NegInf = (if a = 0 then NaN else if 0 < a then NegInf else PosInf)"
| "js_mul PosInf (Num b) = (if b = 0 then NaN else if 0 < b then PosInf else NegInf)"
| "js_mul NegInf (Num b) = (if b = 0 then NaN else if 0 < b then NegInf else PosInf)"
| "js_mul PosInf PosInf = PosInf"
| "js_mul PosInf NegInf = NegInf"
| "js_mul NegInf PosInf = NegInf"
| "js_mul NegInf NegInf = PosInf"

fun js_div :: "jsnum \<Rightarrow> jsnum \<Rightarrow> jsnum" where
  "js_div NaN _ = NaN"
| "js_div _ NaN = NaN"
| "js_div (Num a) (Num b) =
     (if b = 0 then (if a = 0 then NaN else if 0 < a then PosInf else NegInf)
      else Num (a / b))"
| "js_div (Num a) PosInf = Num 0"
| "js_div (Num a) NegInf = Num 0"
| "js_div PosInf (Num b) = (if 0 \<le> b then PosInf else NegInf)"
| "js_div NegInf (Num b) = (if 0 \<le> b then NegInf else PosInf)"
| "js_div PosInf PosInf = NaN"
| "js_div PosInf NegInf = NaN"
| "js_div NegInf PosInf = NaN"
| "js_div NegInf NegInf = NaN"

text \<open>The remainder operator \<open>%\<close>: the result has the sign of the dividend.\<close>

definition trunc :: "real \<Rightarrow> int" where
  "trunc x = (if 0 \<le> x then \<lfloor>x\<rfloor> else \<lceil>x\<rceil>)"

fun js_mod :: "jsnum \<Rightarrow> jsnum \<Rightarrow> jsnum" where
  "js_mod NaN _ = NaN"
| "js_mod _ NaN = NaN"
| "js_mod PosInf _ = NaN"
| "js_mod NegInf _ = NaN"
| "js_mod (Num a) PosInf = Num a"
| "js_mod (Num a) NegInf = Num a"
| "js_mod (Num a) (Num b) = (if b = 0 then NaN else Num (a - b * of_int (trunc (a / b))))"

text \<open>
  The comparisons \<open><=\<close> and \<open><\<close>; \<open>>=\<close> and \<open>>\<close> swap the operands. Every
  comparison with \<open>NaN\<close> is false.
\<close>

fun js_le :: "jsnum \<Rightarrow> jsnum \<Rightarrow> bool" where
  "js_le NaN _ = False"
| "js_le _ NaN = False"
| "js_le NegInf _ = True"
| "js_le _ PosInf = True"
| "js_le (Num a) (Num b) = (a \<le> b)"
| "js_le PosInf _ = False"
| "js_le _ NegInf = False"

fun js_lt :: "jsnum \<Rightarrow> jsnum \<Rightarrow> bool" where
  "js_lt NaN _ = False"
| "js_lt _ NaN = False"
| "js_lt (Num a) (Num b) = (a < b)"
| "js_lt PosInf _ = False"
| "js_lt _ NegInf = False"
| "js_lt NegInf _ = True"
| "js_lt _ PosInf = True"

definition js_ge :: "jsnum \<Rightarrow> jsnum \<Rightarrow> bool" where
  "js_ge a b = js_le b a"

definition js_gt :: "jsnum \<Rightarrow> jsnum \<Rightarrow> bool" where
  "js_gt a b = js_lt b a"

text \<open>Strict equality \<open>===\<close> of two numbers: \<open>NaN\<close> equals nothing.\<close>

definition js_eq :: "jsnum \<Rightarrow> jsnum \<Rightarrow> bool" where
  "js_eq a b = (a \<noteq> NaN \<and> a = b)"

text \<open>
  Truthiness of a number, and \<open>x || d\<close> for a field \<open>x\<close> that may be absent
  (\<open>undefined\<close> is \<open>None\<close>): zero, \<open>NaN\<close> and \<open>undefined\<close> give the default.
\<close>

fun truthy :: "jsnum \<Rightarrow> bool" where
  "truthy (Num a) = (a \<noteq> 0)"
| "truthy NaN = False"
| "truthy PosInf = True"
| "truthy NegInf = True"

definition js_or :: "jsnum \<Rightarrow> jsnum \<Rightarrow> jsnum" where
  "js_or x d = (if truthy x then x else d)"

fun or_default :: "jsnum option \<Rightarrow> jsnum \<Rightarrow> jsnum" where
  "or_default None d = d"
| "or_default (Some x) d = js_or x d"

fun js_isFinite :: "jsnum \<Rightarrow> bool" where
  "js_isFinite (Num a) = True"
| "js_isFinite PosInf = False"
| "js_isFinite NegInf = False"
| "js_isFinite NaN = False"

fun js_floor :: "jsnum \<Rightarrow> jsnum" where
  "js_floor (Num a) = Num (of_int \<lfloor>a\<rfloor>)"
| "js_floor PosInf = PosInf"
| "js_floor NegInf = NegInf"
| "js_floor NaN = NaN"

fun js_ceil :: "jsnum \<Rightarrow> jsnum" where
  "js_ceil (Num a) = Num (of_int \<lceil>a\<rceil>)"
| "js_ceil PosInf = PosInf"
| "js_ceil NegInf = NegInf"
| "js_ceil NaN = NaN"

text \<open>\<open>Math.round\<close> rounds to the nearest integer, a half towards plus infinity.\<close>

fun js_round :: "jsnum \<Rightarrow> jsnum" where
  "js_round (Num a) = Num (of_int \<lfloor>a + 1 / 2\<rfloor>)"
| "js_round PosInf = PosInf"
| "js_round NegInf = NegInf"
| "js_round NaN = NaN"

fun js_max :: "jsnum \<Rightarrow> jsnum \<Rightarrow> jsnum" where
  "js_max NaN _ = NaN"
| "js_max _ NaN = NaN"
| "js_max PosInf _ = PosInf"
| "js_max _ PosInf = PosInf"
| "js_max NegInf b = b"
| "js_max a NegInf = a"
| "js_max (Num a) (Num b) = Num (max a b)"

fun js_log :: "jsnum \<Rightarrow> jsnum" where
  "js_log (Num a) = (if a < 0 then NaN else if a = 0 then NegInf else Num (ln a))"
| "js_log PosInf = PosInf"
| "js_log NegInf = NaN"
| "js_log NaN = NaN"

text \<open>
  \<open>Math.pow\<close>, by the cases of ECMAScript's \<open>Number::exponentiate\<close>. An integral
  exponent is computed by repeated multiplication (\<open>powi\<close>), any other exponent of a
  positive base by \<open>powr\<close>.
\<close>

definition is_integral :: "real \<Rightarrow> bool" where
  "is_integral y = (y = of_int \<lfloor>y\<rfloor>)"

definition is_odd_integral :: "real \<Rightarrow> bool" where
  "is_odd_integral y = (is_integral y \<and> odd \<lfloor>y\<rfloor>)"

definition pow_finite :: "real \<Rightarrow> real \<Rightarrow> jsnum" where
  "pow_finite x y =
     (if y = 0 then Num 1
      else if x = 0 then (if 0 < y then Num 0 else PosInf)
      else if is_integral y then Num (power_int x \<lfloor>y\<rfloor>)
      else if x < 0 then NaN
      else Num (x powr y))"

fun js_pow :: "jsnum \<Rightarrow> jsnum \<Rightarrow> jsnum" where
  "js_pow _ NaN = NaN"
| "js_pow NaN (Num y) = (if y = 0 then Num 1 else NaN)"
| "js_pow NaN _ = NaN"
| "js_pow (Num x) (Num y) = pow_finite x y"
| "js_pow PosInf (Num y) = (if y = 0 then Num 1 else if 0 < y then PosInf else Num 0)"
| "js_pow NegInf (Num y) =
     (if y = 0 then Num 1
      else if 0 < y then (if is_odd_integral y then NegInf else PosInf)
      else Num 0)"
| "js_pow (Num x) PosInf =
     (if 1 < \<bar>x\<bar> then PosInf else if \<bar>x\<bar> = 1 then NaN else Num 0)"
| "js_pow (Num x) NegInf =
     (if 1 < \<bar>x\<bar> then Num 0 else if \<bar>x\<bar> = 1 then NaN else PosInf)"
| "js_pow PosInf PosInf = PosInf"
| "js_pow NegInf PosInf = PosInf"
| "js_pow PosInf NegInf = Num 0"
| "js_pow NegInf NegInf = Num 0"

section \<open>Data model\<close>

text \<open>
  \<open>FinancialInputs\<close> and \<open>CalculationResults\<close> as the interfaces declare them: a
  field marked \<open>?\<close> may be absent and is an option.
\<close>

record FinancialInputs =
  currentIncome :: jsnum
  monthlyExpenses :: jsnum
  currentSavings :: jsnum
  currentInvestments :: "jsnum option"
  targetFINumber :: jsnum
  timeHorizon :: jsnum
  annualReturn :: jsnum
  inflationRate :: jsnum
  monthlySavings :: "jsnum option"
  monthlyInvestment :: "jsnum option"
  savingsInterestRate :: "jsnum option"

record CalculationResults =
  requiredMonthlySavings :: jsnum
  futureValueOfCurrentSavings :: jsnum
  inflationAdjustedFINumber :: jsnum
  yearsToFI :: jsnum
  monthsToFI :: jsnum
  totalMonthsToFI :: jsnum
  calculatedFINumber :: "jsnum option"
  baseFINumber :: "jsnum option"
  suggestedMonthlySavings :: "jsnum option"
  suggestedMonthlyInvestment :: "jsnum option"
  totalFutureSavings :: "jsnum option"
  totalFutureInvestment :: "jsnum option"
  targetAtCompletion :: "jsnum option"

datatype mode = GoalBased | TimeBased | ContributionBased

section \<open>Compounding primitives\<close>

definition calculateFutureValue :: "jsnum \<Rightarrow> jsnum \<Rightarrow> jsnum \<Rightarrow> jsnum" where
  "calculateFutureValue principal' annualRate years =
     js_mul principal' (js_pow (js_add (Num 1) annualRate) years)"

definition calculateInflationAdjustedAmount :: "jsnum \<Rightarrow> jsnum \<Rightarrow> jsnum \<Rightarrow> jsnum" where
  "calculateInflationAdjustedAmount amount inflationRate' years =
     js_mul amount (js_pow (js_add (Num 1) inflationRate') years)"

definition calculateRequiredMonthlySavings :: "jsnum \<Rightarrow> jsnum \<Rightarrow> jsnum \<Rightarrow> jsnum \<Rightarrow> jsnum" where
  "calculateRequiredMonthlySavings targetAmount currentSavings' annualRate years =
     (let futureValueOfSavings = calculateFutureValue currentSavings' annualRate years;
          amountNeeded = js_sub targetAmount futureValueOfSavings
      in if js_le amountNeeded (Num 0) then Num 0
         else
           let monthlyRate = js_div annualRate (Num 12);
               totalMonths = js_mul years (Num 12);
               denominator = js_sub (js_pow (js_add (Num 1) monthlyRate) totalMonths) (Num 1)
           in if js_eq denominator (Num 0) then js_div amountNeeded totalMonths
              else js_div (js_mul amountNeeded monthlyRate) denominator)"

section \<open>Root-finder\<close>

text \<open>
  The \<open>while (low <= high)\<close> loop of \<open>calculateContributionTimeline\<close>, with the test
  \<open>projection.total >= projection.target\<close> at month \<open>mid\<close> as the parameter \<open>reached\<close>.
  The counters are integers throughout (\<open>mid\<close> is a floor), so they are \<open>int\<close> here.
  The loop of \<open>calculateTimelineToFI\<close> is the same without the flag \<open>found\<close>.
\<close>

function binary_search :: "(int \<Rightarrow> bool) \<Rightarrow> int \<Rightarrow> int \<Rightarrow> int \<Rightarrow> bool \<Rightarrow> int \<times> bool" where
  "binary_search reached low high result found =
     (if low \<le> high then
        (let mid = (low + high) div 2
         in if reached mid then binary_search reached low (mid - 1) mid True
            else binary_search reached (mid + 1) high result found)
      else (result, found))"
  by pat_completeness auto
termination
  by (relation "measure (\<lambda>(reached, low, high, result, found). nat (high - low + 1))") auto

declare binary_search.simps [simp del]

text \<open>
  \<open>calculateTimelineToFI\<close>: the duration as \<open>(years, months, totalMonths)\<close>.
  \<open>timelineReached\<close> is the test \<open>futureValue >= targetAmount\<close> of its loop at month \<open>mid\<close>.
\<close>

definition timelineReached :: "jsnum \<Rightarrow> jsnum \<Rightarrow> jsnum \<Rightarrow> jsnum \<Rightarrow> int \<Rightarrow> bool" where
  "timelineReached currentSavings' monthlySavings' targetAmount monthlyRate mid =
     (let futureValue =
            js_add (js_mul currentSavings' (js_pow (js_add (Num 1) monthlyRate) (Num (of_int mid))))
                   (js_mul monthlySavings'
                      (js_div (js_sub (js_pow (js_add (Num 1) monthlyRate) (Num (of_int mid))) (Num 1))
                              monthlyRate))
      in js_ge futureValue targetAmount)"

record Timeline =
  years :: jsnum
  months :: jsnum
  totalMonths :: jsnum

definition calculateTimelineToFI :: "jsnum \<Rightarrow> jsnum \<Rightarrow> jsnum \<Rightarrow> jsnum \<Rightarrow> Timeline" where
  "calculateTimelineToFI currentSavings' monthlySavings' targetAmount annualRate =
     (let monthlyRate = js_div annualRate (Num 12)
      in if js_eq monthlySavings' (Num 0) then
           (if js_ge currentSavings' targetAmount then
              \<lparr>years = Num 0, months = Num 0, totalMonths = Num 0\<rparr>
            else if js_eq monthlyRate (Num 0) then
              \<lparr>years = PosInf, months = PosInf, totalMonths = PosInf\<rparr>
            else
              let months' = js_div (js_log (js_div targetAmount currentSavings'))
                                   (js_log (js_add (Num 1) monthlyRate))
              in \<lparr>years = js_floor (js_div months' (Num 12)),
                  months = js_ceil (js_mod months' (Num 12)),
                  totalMonths = js_ceil months'\<rparr>)
         else
           let result =
                 fst (binary_search (timelineReached currentSavings' monthlySavings' targetAmount monthlyRate)
                        0 1200 1200 False)
           in \<lparr>years = js_floor (js_div (Num (of_int result)) (Num 12)),
               months = js_mod (Num (of_int result)) (Num 12),
               totalMonths = Num (of_int result)\<rparr>)"

section \<open>Mode strategies\<close>

text \<open>
  The two factors of the annuity formula and the 30/70 split are the same lines in the
  goal-based and the time-based strategy; \<open>fvFactor rate months\<close> is
  \<open>(Math.pow(1 + rate, months) - 1) / rate\<close>, with no test of \<open>rate\<close>.
\<close>

definition fvFactor :: "jsnum \<Rightarrow> jsnum \<Rightarrow> jsnum" where
  "fvFactor rate months' = js_div (js_sub (js_pow (js_add (Num 1) rate) months') (Num 1)) rate"

definition calculateTimeBasedStrategy :: "FinancialInputs \<Rightarrow> CalculationResults" where
  "calculateTimeBasedStrategy inputs =
     (let baseFINumber' = js_mul (js_mul (monthlyExpenses inputs) (Num 12)) (Num 25);
          futureFINumber =
            calculateInflationAdjustedAmount baseFINumber' (inflationRate inputs) (timeHorizon inputs);
          futureValueOfCash =
            calculateFutureValue (currentSavings inputs)
              (or_default (savingsInterestRate inputs) (Num 0)) (timeHorizon inputs);
          futureValueOfInvestments =
            calculateFutureValue (or_default (currentInvestments inputs) (Num 0))
              (annualReturn inputs) (timeHorizon inputs);
          futureValueOfCurrentAssets = js_add futureValueOfCash futureValueOfInvestments;
          gap = js_sub futureFINumber futureValueOfCurrentAssets;
          (requiredMonthlySavings', totalFutureSavings', totalFutureInvestment') =
            (if js_gt gap (Num 0) then
               let savingsRate = js_div (or_default (savingsInterestRate inputs) (Num 0)) (Num 12);
                   investmentRate = js_div (annualReturn inputs) (Num 12);
                   months' = js_mul (timeHorizon inputs) (Num 12);
                   fvFactorSavings = fvFactor savingsRate months';
                   fvFactorInvestment = fvFactor investmentRate months';
                   combinedFactor =
                     js_add (js_mul (Num (3 / 10)) fvFactorSavings)
                            (js_mul (Num (7 / 10)) fvFactorInvestment);
                   required = js_div gap combinedFactor
               in (required,
                   js_add futureValueOfCash (js_mul (js_mul required (Num (3 / 10))) fvFactorSavings),
                   js_add futureValueOfInvestments
                     (js_mul (js_mul required (Num (7 / 10))) fvFactorInvestment))
             else (Num 0, futureValueOfCash, futureValueOfInvestments));
          suggestedMonthlyInvestment' = js_mul requiredMonthlySavings' (Num (7 / 10));
          suggestedMonthlySavings' = js_mul requiredMonthlySavings' (Num (3 / 10))
      in \<lparr>requiredMonthlySavings = requiredMonthlySavings',
          futureValueOfCurrentSavings = futureValueOfCurrentAssets,
          inflationAdjustedFINumber = futureFINumber,
          yearsToFI = timeHorizon inputs,
          monthsToFI = Num 0,
          totalMonthsToFI = js_mul (timeHorizon inputs) (Num 12),
          calculatedFINumber = Some futureFINumber,
          baseFINumber = Some baseFINumber',
          suggestedMonthlySavings = Some suggestedMonthlySavings',
          suggestedMonthlyInvestment = Some suggestedMonthlyInvestment',
          totalFutureSavings = Some totalFutureSavings',
          totalFutureInvestment = Some totalFutureInvestment',
          targetAtCompletion = None\<rparr>)"

text \<open>
  The contribution-based strategy. \<open>projectPortfolio\<close> is the closure of
  \<open>calculateContributionTimeline\<close>; the constants it captures are computed from the
  inputs in its body here.
\<close>

record Projection =
  total :: jsnum
  target :: jsnum
  savingsFutureValue :: jsnum
  investmentsFutureValue :: jsnum

definition baseTarget :: "FinancialInputs \<Rightarrow> jsnum" where
  "baseTarget inputs =
     js_or (targetFINumber inputs) (js_mul (js_mul (monthlyExpenses inputs) (Num 12)) (Num 25))"

definition projectPortfolio :: "FinancialInputs \<Rightarrow> jsnum \<Rightarrow> Projection" where
  "projectPortfolio inputs months' =
     (let monthlySavingsContribution = or_default (monthlySavings inputs) (Num 0);
          monthlyInvestmentContribution = or_default (monthlyInvestment inputs) (Num 0);
          monthlySavingsRate = js_div (or_default (savingsInterestRate inputs) (Num 0)) (Num 12);
          monthlyInvestmentRate = js_div (annualReturn inputs) (Num 12);
          monthlyInflationRate =
            js_sub (js_pow (js_add (Num 1) (inflationRate inputs)) (js_div (Num 1) (Num 12))) (Num 1);
          targetAtMonth =
            js_mul (baseTarget inputs) (js_pow (js_add (Num 1) monthlyInflationRate) months');
          savingsFutureValue' =
            (if js_eq monthlySavingsRate (Num 0) then
               js_add (currentSavings inputs) (js_mul monthlySavingsContribution months')
             else
               js_add (js_mul (currentSavings inputs) (js_pow (js_add (Num 1) monthlySavingsRate) months'))
                 (js_mul monthlySavingsContribution
                    (js_div (js_sub (js_pow (js_add (Num 1) monthlySavingsRate) months') (Num 1))
                            monthlySavingsRate)));
          investmentsFutureValue' =
            (if js_eq monthlyInvestmentRate (Num 0) then
               js_add (or_default (currentInvestments inputs) (Num 0))
                      (js_mul monthlyInvestmentContribution months')
             else
               js_add (js_mul (or_default (currentInvestments inputs) (Num 0))
                              (js_pow (js_add (Num 1) monthlyInvestmentRate) months'))
                 (js_mul monthlyInvestmentContribution
                    (js_div (js_sub (js_pow (js_add (Num 1) monthlyInvestmentRate) months') (Num 1))
                            monthlyInvestmentRate)))
      in \<lparr>total = js_add savingsFutureValue' investmentsFutureValue',
          target = targetAtMonth,
          savingsFutureValue = savingsFutureValue',
          investmentsFutureValue = investmentsFutureValue'\<rparr>)"

text \<open>The test of the search: \<open>projection.total >= projection.target\<close> at month \<open>mid\<close>.\<close>

definition reachedAt :: "FinancialInputs \<Rightarrow> int \<Rightarrow> bool" where
  "reachedAt inputs mid =
     (let projection = projectPortfolio inputs (Num (of_int mid))
      in js_ge (total projection) (target projection))"

definition calculateContributionTimeline :: "FinancialInputs \<Rightarrow> CalculationResults" where
  "calculateContributionTimeline inputs =
     (let monthlySavingsContribution = or_default (monthlySavings inputs) (Num 0);
          monthlyInvestmentContribution = or_default (monthlyInvestment inputs) (Num 0);
          startingPosition = projectPortfolio inputs (Num 0)
      in if js_ge (total startingPosition) (target startingPosition) then
           \<lparr>requiredMonthlySavings = js_add monthlySavingsContribution monthlyInvestmentContribution,
            futureValueOfCurrentSavings = total startingPosition,
            inflationAdjustedFINumber = target startingPosition,
            yearsToFI = Num 0,
            monthsToFI = Num 0,
            totalMonthsToFI = Num 0,
            calculatedFINumber = None,
            baseFINumber = Some (baseTarget inputs),
            suggestedMonthlySavings = Some monthlySavingsContribution,
            suggestedMonthlyInvestment = Some monthlyInvestmentContribution,
            totalFutureSavings = Some (savingsFutureValue startingPosition),
            totalFutureInvestment = Some (investmentsFutureValue startingPosition),
            targetAtCompletion = Some (target startingPosition)\<rparr>
         else
           let (result, found) = binary_search (reachedAt inputs) 0 1200 1200 False;
               completion = projectPortfolio inputs (Num (of_int result));
               yearsToFI' = js_floor (js_div (Num (of_int result)) (Num 12));
               monthsToFI' = js_mod (Num (of_int result)) (Num 12)
           in \<lparr>requiredMonthlySavings = js_add monthlySavingsContribution monthlyInvestmentContribution,
               futureValueOfCurrentSavings = total completion,
               inflationAdjustedFINumber = target completion,
               yearsToFI = (if found then yearsToFI' else PosInf),
               monthsToFI = (if found then monthsToFI' else Num 0),
               totalMonthsToFI = (if found then Num (of_int result) else PosInf),
               calculatedFINumber = None,
               baseFINumber = Some (baseTarget inputs),
               suggestedMonthlySavings = Some monthlySavingsContribution,
               suggestedMonthlyInvestment = Some monthlyInvestmentContribution,
               totalFutureSavings = Some (savingsFutureValue completion),
               totalFutureInvestment = Some (investmentsFutureValue completion),
               targetAtCompletion = Some (target completion)\<rparr>)"

text \<open>The entry point; its last branch is the goal-based strategy.\<close>

definition calculateFinancialIndependence :: "FinancialInputs \<Rightarrow> mode \<Rightarrow> CalculationResults" where
  "calculateFinancialIndependence inputs mode' =
     (if mode' = TimeBased then calculateTimeBasedStrategy inputs
      else if mode' = ContributionBased then calculateContributionTimeline inputs
      else
        let futureValueOfCash =
              calculateFutureValue (currentSavings inputs)
                (or_default (savingsInterestRate inputs) (Num 0)) (timeHorizon inputs);
            futureValueOfInvestments =
              calculateFutureValue (or_default (currentInvestments inputs) (Num 0))
                (annualReturn inputs) (timeHorizon inputs);
            futureValueOfCurrentSavings' = js_add futureValueOfCash futureValueOfInvestments;
            inflationAdjustedFINumber' = targetFINumber inputs;
            amountNeeded = js_sub inflationAdjustedFINumber' futureValueOfCurrentSavings';
            (requiredMonthlyTotal, suggestedMonthlySavings', suggestedMonthlyInvestment',
             totalFutureSavings', totalFutureInvestment') =
              (if js_gt amountNeeded (Num 0) then
                 let savingsRate = js_div (or_default (savingsInterestRate inputs) (Num 0)) (Num 12);
                     investmentRate = js_div (annualReturn inputs) (Num 12);
                     months' = js_mul (timeHorizon inputs) (Num 12);
                     fvFactorSavings = fvFactor savingsRate months';
                     fvFactorInvestment = fvFactor investmentRate months';
                     combinedFactor =
                       js_add (js_mul (Num (3 / 10)) fvFactorSavings)
                              (js_mul (Num (7 / 10)) fvFactorInvestment);
                     required = js_div amountNeeded combinedFactor;
                     suggestedSavings = js_mul required (Num (3 / 10));
                     suggestedInvestment = js_mul required (Num (7 / 10))
                 in (required, suggestedSavings, suggestedInvestment,
                     js_add futureValueOfCash (js_mul suggestedSavings fvFactorSavings),
                     js_add futureValueOfInvestments (js_mul suggestedInvestment fvFactorInvestment))
               else (Num 0, Num 0, Num 0, futureValueOfCash, futureValueOfInvestments));
            yearsToFI' = (if js_le amountNeeded (Num 0) then Num 0 else timeHorizon inputs)
        in \<lparr>requiredMonthlySavings = requiredMonthlyTotal,
            futureValueOfCurrentSavings = futureValueOfCurrentSavings',
            inflationAdjustedFINumber = inflationAdjustedFINumber',
            yearsToFI = yearsToFI',
            monthsToFI = Num 0,
            totalMonthsToFI = js_mul yearsToFI' (Num 12),
            calculatedFINumber = None,
            baseFINumber = None,
            suggestedMonthlySavings = Some suggestedMonthlySavings',
            suggestedMonthlyInvestment = Some suggestedMonthlyInvestment',
            totalFutureSavings = Some totalFutureSavings',
            totalFutureInvestment = Some totalFutureInvestment',
            targetAtCompletion = None\<rparr>)"

section \<open>Timeline generator\<close>

text \<open>
  A sample of the series is \<open>{year, savings, target}\<close>; the third field is \<open>targetValue\<close>
  here, since \<open>target\<close> is a field of the projection above.
\<close>

record TimelinePoint =
  year :: jsnum
  savings :: jsnum
  targetValue :: jsnum

text \<open>
  The variables that \<open>generateTimelineData\<close> assigns before its loop, each with its
  assignments in the order of the source. \<open>results\<close> is the optional third argument.
\<close>

definition timelineTargetAmount ::
    "FinancialInputs \<Rightarrow> mode \<Rightarrow> CalculationResults option \<Rightarrow> jsnum" where
  "timelineTargetAmount inputs mode' results =
     (let targetAmount0 = targetFINumber inputs;
          targetAmount1 =
            (case results of
               Some r \<Rightarrow>
                 if mode' = TimeBased then
                   or_default (baseFINumber r) (js_mul (js_mul (monthlyExpenses inputs) (Num 12)) (Num 25))
                 else targetAmount0
             | None \<Rightarrow> targetAmount0);
          targetAmount2 =
            (if mode' = ContributionBased then
               or_default (Option.bind results baseFINumber) (targetFINumber inputs)
             else targetAmount1)
      in case Option.bind results baseFINumber of
           Some b \<Rightarrow> if mode' = TimeBased \<and> truthy b then b else targetAmount2
         | None \<Rightarrow> targetAmount2)"

definition timelineContributions ::
    "FinancialInputs \<Rightarrow> mode \<Rightarrow> CalculationResults option \<Rightarrow> jsnum \<times> jsnum" where
  "timelineContributions inputs mode' results =
     (let (monthlySavingsContribution1, monthlyInvestmentContribution1) =
            (case results of
               Some r \<Rightarrow> (or_default (suggestedMonthlySavings r) (Num 0),
                          or_default (suggestedMonthlyInvestment r) (Num 0))
             | None \<Rightarrow> (Num 0, Num 0))
      in if mode' = ContributionBased then
           (or_default (monthlySavings inputs) (Num 0), or_default (monthlyInvestment inputs) (Num 0))
         else (monthlySavingsContribution1, monthlyInvestmentContribution1))"

definition yearsToProject :: "FinancialInputs \<Rightarrow> mode \<Rightarrow> CalculationResults option \<Rightarrow> jsnum" where
  "yearsToProject inputs mode' results =
     (let projectedYearsFromResults =
            (case results of
               Some r \<Rightarrow> if js_isFinite (yearsToFI r) then js_ceil (yearsToFI r) else timeHorizon inputs
             | None \<Rightarrow> timeHorizon inputs)
      in if mode' = ContributionBased \<and> results \<noteq> None then
           js_max projectedYearsFromResults (timeHorizon inputs)
         else timeHorizon inputs)"

text \<open>
  The inner loop \<open>for (month = 0; month < 12; month++)\<close>, by the number of iterations
  left, on the pair \<open>(savedValue, investedValue)\<close>.
\<close>

fun month_loop :: "jsnum \<Rightarrow> jsnum \<Rightarrow> jsnum \<Rightarrow> jsnum \<Rightarrow> nat \<Rightarrow> jsnum \<times> jsnum \<Rightarrow> jsnum \<times> jsnum" where
  "month_loop monthlySavingsRate monthlyInvestmentRate savingsContribution investmentContribution 0
     (savedValue, investedValue) = (savedValue, investedValue)"
| "month_loop monthlySavingsRate monthlyInvestmentRate savingsContribution investmentContribution (Suc n)
     (savedValue, investedValue) =
     month_loop monthlySavingsRate monthlyInvestmentRate savingsContribution investmentContribution n
       (js_add (js_mul savedValue (js_add (Num 1) monthlySavingsRate)) savingsContribution,
        js_add (js_mul investedValue (js_add (Num 1) monthlyInvestmentRate)) investmentContribution)"

text \<open>
  The outer loop \<open>for (year = 0; year <= yearsToProject; year++)\<close> for a finite bound
  \<open>bound\<close>; \<open>step\<close> is the inner loop.
\<close>

function year_loop ::
    "jsnum \<Rightarrow> jsnum \<Rightarrow> (jsnum \<times> jsnum \<Rightarrow> jsnum \<times> jsnum) \<Rightarrow> real \<Rightarrow> int \<Rightarrow> jsnum \<times> jsnum \<Rightarrow> TimelinePoint list" where
  "year_loop targetAmount inflationRate' step bound year' values =
     (if of_int year' \<le> bound then
        \<lparr>year = Num (of_int year'),
         savings = js_round (js_add (snd values) (fst values)),
         targetValue = calculateInflationAdjustedAmount targetAmount inflationRate' (Num (of_int year'))\<rparr>
        # year_loop targetAmount inflationRate' step bound (year' + 1) (step values)
      else [])"
  by pat_completeness auto
termination
  by (relation "measure (\<lambda>(targetAmount, inflationRate', step, bound, year', values).
        nat (\<lfloor>bound\<rfloor> + 1 - year'))")
     (auto simp: le_floor_iff)

declare year_loop.simps [simp del]

text \<open>
  \<open>generateTimelineData\<close>. The loop test \<open>year <= yearsToProject\<close> is false at once for
  \<open>NaN\<close> and minus infinity, and never false for plus infinity: the loop then does not
  end, which is the result \<open>None\<close>.
\<close>

definition generateTimelineData ::
    "FinancialInputs \<Rightarrow> mode \<Rightarrow> CalculationResults option \<Rightarrow> TimelinePoint list option" where
  "generateTimelineData inputs mode' results =
     (let monthlyInvestmentRate = js_div (annualReturn inputs) (Num 12);
          monthlySavingsRate = js_div (or_default (savingsInterestRate inputs) (Num 0)) (Num 12);
          (monthlySavingsContribution, monthlyInvestmentContribution) =
            timelineContributions inputs mode' results;
          targetAmount = timelineTargetAmount inputs mode' results;
          investedValue = or_default (currentInvestments inputs) (Num 0);
          savedValue = currentSavings inputs;
          step = month_loop monthlySavingsRate monthlyInvestmentRate
                   monthlySavingsContribution monthlyInvestmentContribution 12
      in case yearsToProject inputs mode' results of
           Num bound \<Rightarrow>
             Some (year_loop targetAmount (inflationRate inputs) step bound 0 (savedValue, investedValue))
         | PosInf \<Rightarrow> None
         | NegInf \<Rightarrow> Some []
         | NaN \<Rightarrow> Some [])"

text \<open>
  The pair \<open>(savedValue, investedValue)\<close> when the sample of year \<open>k\<close> is taken: \<open>k\<close> runs of
  the inner loop from the initial values.
\<close>

definition timelineValues ::
    "FinancialInputs \<Rightarrow> mode \<Rightarrow> CalculationResults option \<Rightarrow> nat \<Rightarrow> jsnum \<times> jsnum" where
  "timelineValues inputs mode' results k =
     (let monthlyInvestmentRate = js_div (annualReturn inputs) (Num 12);
          monthlySavingsRate = js_div (or_default (savingsInterestRate inputs) (Num 0)) (Num 12);
          (monthlySavingsContribution, monthlyInvestmentContribution) =
            timelineContributions inputs mode' results;
          step = month_loop monthlySavingsRate monthlyInvestmentRate
                   monthlySavingsContribution monthlyInvestmentContribution 12
      in (step ^^ k) (currentSavings inputs, or_default (currentInvestments inputs) (Num 0)))"

section \<open>Doubles\<close>

text \<open>
  The value a double holds after one operation: the exact result rounded to 53 significant
  bits, to the nearest and at a tie to the even one. Subnormal and out-of-range results are
  left out (no value below is near them). \<open>binary_exponent x\<close> is the \<open>e\<close> with
  \<open>2^e \<le> |x| < 2^(e+1)\<close>.
\<close>

definition round_half_even :: "real \<Rightarrow> int" where
  "round_half_even x =
     (let f = \<lfloor>x\<rfloor>; d = x - of_int f
      in if d < 1 / 2 then f else if 1 / 2 < d then f + 1 else if even f then f else f + 1)"

definition binary_exponent :: "real \<Rightarrow> int" where
  "binary_exponent x = \<lfloor>log 2 \<bar>x\<bar>\<rfloor>"

definition to_double :: "real \<Rightarrow> real" where
  "to_double x =
     (if x = 0 then 0
      else of_int (round_half_even (x * power_int 2 (52 - binary_exponent x)))
             * power_int 2 (binary_exponent x - 52))"

definition double_mul :: "real \<Rightarrow> real \<Rightarrow> real" where
  "double_mul a b = to_double (a * b)"

definition double_add :: "real \<Rightarrow> real \<Rightarrow> real" where
  "double_add a b = to_double (a + b)"

definition double_div :: "real \<Rightarrow> real \<Rightarrow> real" where
  "double_div a b = to_double (a / b)"

text \<open>
  The sum \<open>suggestedMonthlySavings + suggestedMonthlyInvestment\<close> of the goal-based and the
  time-based result as doubles give it for a required contribution: the literals \<open>0.3\<close> and
  \<open>0.7\<close>, the two products \<open>required * 0.3\<close> and \<open>required * 0.7\<close>, and their sum, each
  rounded.
\<close>

definition suggestedSumDouble :: "real \<Rightarrow> real" where
  "suggestedSumDouble required =
     double_add (double_mul required (to_double (3 / 10)))
                (double_mul required (to_double (7 / 10)))"

text \<open>
  The combined annuity factor and the required contribution of the goal-based strategy as
  doubles give them from the two factors and the amount needed.
\<close>

definition requiredDouble :: "real \<Rightarrow> real \<Rightarrow> real \<Rightarrow> real" where
  "requiredDouble amountNeeded fvFactorSavings fvFactorInvestment =
     double_div amountNeeded
       (double_add (double_mul (to_double (3 / 10)) fvFactorSavings)
                   (double_mul (to_double (7 / 10)) fvFactorInvestment))"

section \<open>Example inputs\<close>

text \<open>
  Concrete input records at which the theorems below are instantiated. \<open>saver_inputs\<close>
  saves 10 a month at zero rates towards a target of 400, which takes 40 months;
  \<open>steady_inputs\<close> is the same with a target of 360, which takes 36; \<open>idle_inputs\<close> is
  the same household with no contribution, which never reaches the target;
  \<open>inflating_inputs\<close> has 10% inflation, and \<open>chart_inputs\<close> also amounts that are not
  whole; \<open>compound_inputs\<close> holds two pools at rates of 100% and 200%;
  \<open>zero_rate_inputs\<close> is a goal-based plan with no assets and zero rates;
  \<open>growth_inputs\<close> is one with a monthly rate of 1 in both pools, so that twelve months
  multiply a deposit by 4096, and \<open>split_inputs\<close> the same with a target of 12285.
\<close>

definition saver_inputs :: FinancialInputs where
  "saver_inputs =
     \<lparr>currentIncome = Num 1000, monthlyExpenses = Num 50, currentSavings = Num 0,
      currentInvestments = Some (Num 0), targetFINumber = Num 400, timeHorizon = Num 2,
      annualReturn = Num 0, inflationRate = Num 0, monthlySavings = Some (Num 10),
      monthlyInvestment = Some (Num 0), savingsInterestRate = Some (Num 0)\<rparr>"

definition idle_inputs :: FinancialInputs where
  "idle_inputs = saver_inputs\<lparr>monthlySavings := None\<rparr>"

definition zero_rate_inputs :: FinancialInputs where
  "zero_rate_inputs =
     \<lparr>currentIncome = Num 1000, monthlyExpenses = Num 50, currentSavings = Num 0,
      currentInvestments = Some (Num 0), targetFINumber = Num 1200, timeHorizon = Num 1,
      annualReturn = Num 0, inflationRate = Num 0, monthlySavings = None,
      monthlyInvestment = None, savingsInterestRate = Some (Num 0)\<rparr>"


definition compound_inputs :: FinancialInputs where
  "compound_inputs =
     \<lparr>currentIncome = Num 1000, monthlyExpenses = Num 50, currentSavings = Num 100,
      currentInvestments = Some (Num 10), targetFINumber = Num 400, timeHorizon = Num 2,
      annualReturn = Num 2, inflationRate = Num 0, monthlySavings = None,
      monthlyInvestment = None, savingsInterestRate = Some (Num 1)\<rparr>"

definition inflating_inputs :: FinancialInputs where
  "inflating_inputs = saver_inputs\<lparr>inflationRate := Num (1 / 10)\<rparr>"

definition chart_inputs :: FinancialInputs where
  "chart_inputs = inflating_inputs\<lparr>currentSavings := Num (5 / 2), targetFINumber := Num (1001 / 2)\<rparr>"

definition growth_inputs :: FinancialInputs where
  "growth_inputs =
     \<lparr>currentIncome = Num 1000, monthlyExpenses = Num 50, currentSavings = Num 0,
      currentInvestments = None, targetFINumber = Num 40950, timeHorizon = Num 1,
      annualReturn = Num 12, inflationRate = Num 0, monthlySavings = None,
      monthlyInvestment = None, savingsInterestRate = Some (Num 12)\<rparr>"

definition split_inputs :: FinancialInputs where
  "split_inputs = growth_inputs\<lparr>targetFINumber := Num 12285\<rparr>"

section \<open>Properties of the arithmetic\<close>

lemma js_add_NaN_right [simp]: "js_add x NaN = NaN"
  by (cases x) simp_all

lemma js_mul_NaN_right [simp]: "js_mul x NaN = NaN"
  by (cases x) simp_all

lemma js_div_NaN_right [simp]: "js_div x NaN = NaN"
  by (cases x) simp_all

lemma js_add_zero_finite: "js_isFinite x \<Longrightarrow> js_add x (Num 0) = x"
  by (cases x) simp_all

lemma pow_finite_one: "pow_finite 1 y = Num 1"
  by (simp add: pow_finite_def)

lemma pow_finite_nat: "pow_finite x (of_nat n) = Num (x ^ n)"
  by (cases "n = 0") (simp_all add: pow_finite_def is_integral_def)

text \<open>The annuity factor at a zero rate is \<open>0 / 0\<close>.\<close>

lemma fvFactor_zero_rate: "fvFactor (Num 0) months' = NaN"
  by (cases months') (simp_all add: fvFactor_def js_sub_def pow_finite_one)

text \<open>A whole number of months is its whole years and the months left over.\<close>

lemma months_decomposition:
  assumes "0 \<le> r"
  shows "js_add (js_mul (js_floor (js_div (Num (of_int r)) (Num 12))) (Num 12))
                (js_mod (Num (of_int r)) (Num 12)) = Num (of_int r)"
    and "js_le (Num 0) (js_mod (Num (of_int r)) (Num 12))"
proof -
  have nn: "0 \<le> real_of_int r / 12" using assms by simp
  have le: "real_of_int \<lfloor>real_of_int r / 12\<rfloor> \<le> real_of_int r / 12" by (rule of_int_floor_le)
  show "js_add (js_mul (js_floor (js_div (Num (of_int r)) (Num 12))) (Num 12))
                (js_mod (Num (of_int r)) (Num 12)) = Num (of_int r)"
    using nn by (simp add: trunc_def)
  show "js_le (Num 0) (js_mod (Num (of_int r)) (Num 12))"
    using nn le by (simp add: trunc_def)
qed

section \<open>Properties of the root-finder\<close>

lemma binary_search_none:
  "(\<forall>m. low \<le> m \<and> m \<le> high \<longrightarrow> \<not> reached m) \<Longrightarrow>
     binary_search reached low high result found = (result, found)"
proof (induction reached low high result found rule: binary_search.induct)
  case (1 reached low high result found)
  show ?case
  proof (cases "low \<le> high")
    case False
    then show ?thesis by (subst binary_search.simps) simp
  next
    case True
    define mid where "mid = (low + high) div 2"
    have range: "low \<le> mid" "mid \<le> high" using True by (auto simp: mid_def)
    then have nr: "\<not> reached mid" using "1.prems" by blast
    have "binary_search reached (mid + 1) high result found = (result, found)"
      using "1.IH"(2)[OF True mid_def nr] "1.prems" range by auto
    then show ?thesis
      using True nr by (subst binary_search.simps) (simp add: mid_def Let_def)
  qed
qed

lemma binary_search_range:
  "binary_search reached low high result found = (result', found') \<Longrightarrow>
     (found' \<and> low \<le> result' \<and> result' \<le> high \<and> reached result')
     \<or> (result' = result \<and> found' = found)"
proof (induction reached low high result found rule: binary_search.induct)
  case (1 reached low high result found)
  show ?case
  proof (cases "low \<le> high")
    case False
    then show ?thesis using "1.prems" by (subst (asm) binary_search.simps) simp
  next
    case True
    define mid where "mid = (low + high) div 2"
    have range: "low \<le> mid" "mid \<le> high" using True by (auto simp: mid_def)
    show ?thesis
    proof (cases "reached mid")
      case r: True
      have "binary_search reached low (mid - 1) mid True = (result', found')"
        using "1.prems" True r by (subst (asm) binary_search.simps) (simp add: mid_def Let_def)
      from "1.IH"(1)[OF True mid_def r this] show ?thesis using range r by auto
    next
      case r: False
      have "binary_search reached (mid + 1) high result found = (result', found')"
        using "1.prems" True r by (subst (asm) binary_search.simps) (simp add: mid_def Let_def)
      from "1.IH"(2)[OF True mid_def r this] show ?thesis using range by auto
    qed
  qed
qed

lemma binary_search_least:
  assumes "\<forall>a b. low \<le> a \<and> a \<le> b \<and> b \<le> high \<and> reached a \<longrightarrow> reached b"
    and "\<exists>m. low \<le> m \<and> m \<le> high \<and> reached m"
  shows "\<exists>r. binary_search reached low high result found = (r, True)
           \<and> low \<le> r \<and> r \<le> high \<and> reached r
           \<and> (\<forall>k. low \<le> k \<and> k < r \<longrightarrow> \<not> reached k)"
  using assms
proof (induction reached low high result found rule: binary_search.induct)
  case (1 reached low high result found)
  from "1.prems"(2) have True: "low \<le> high" by auto
  define mid where "mid = (low + high) div 2"
  have range: "low \<le> mid" "mid \<le> high" using True by (auto simp: mid_def)
  show ?case
  proof (cases "reached mid")
    case r: True
    have eq: "binary_search reached low high result found
              = binary_search reached low (mid - 1) mid True"
      using True r by (subst binary_search.simps) (simp add: mid_def Let_def)
    show ?thesis
    proof (cases "\<exists>m. low \<le> m \<and> m \<le> mid - 1 \<and> reached m")
      case ex: True
      have mono: "\<forall>a b. low \<le> a \<and> a \<le> b \<and> b \<le> mid - 1 \<and> reached a \<longrightarrow> reached b"
      proof (intro allI impI)
        fix a b assume h: "low \<le> a \<and> a \<le> b \<and> b \<le> mid - 1 \<and> reached a"
        then have "low \<le> a \<and> a \<le> b \<and> b \<le> high \<and> reached a" using range by linarith
        then show "reached b" using "1.prems"(1) by blast
      qed
      from "1.IH"(1)[OF True mid_def r mono ex] obtain r' where
        "binary_search reached low (mid - 1) mid True = (r', True)"
        "low \<le> r'" "r' \<le> mid - 1" "reached r'" "\<forall>k. low \<le> k \<and> k < r' \<longrightarrow> \<not> reached k"
        by blast
      then show ?thesis using eq range by (intro exI[of _ r']) auto
    next
      case nex: False
      then have "binary_search reached low (mid - 1) mid True = (mid, True)"
        by (intro binary_search_none) auto
      then show ?thesis using eq range r nex by (intro exI[of _ mid]) auto
    qed
  next
    case r: False
    have eq: "binary_search reached low high result found
              = binary_search reached (mid + 1) high result found"
      using True r by (subst binary_search.simps) (simp add: mid_def Let_def)
    have below: "\<forall>k. low \<le> k \<and> k \<le> mid \<longrightarrow> \<not> reached k"
      using "1.prems"(1) range r by blast
    have mono: "\<forall>a b. mid + 1 \<le> a \<and> a \<le> b \<and> b \<le> high \<and> reached a \<longrightarrow> reached b"
    proof (intro allI impI)
      fix a b assume h: "mid + 1 \<le> a \<and> a \<le> b \<and> b \<le> high \<and> reached a"
      then have "low \<le> a \<and> a \<le> b \<and> b \<le> high \<and> reached a" using range by linarith
      then show "reached b" using "1.prems"(1) by blast
    qed
    have ex: "\<exists>m. mid + 1 \<le> m \<and> m \<le> high \<and> reached m"
    proof -
      from "1.prems"(2) obtain m where m: "low \<le> m" "m \<le> high" "reached m" by blast
      have "\<not> m \<le> mid" using below m by blast
      then have "mid + 1 \<le> m" by linarith
      with m show ?thesis by blast
    qed
    from "1.IH"(2)[OF True mid_def r mono ex] obtain r' where
      r': "binary_search reached (mid + 1) high result found = (r', True)"
      "mid + 1 \<le> r'" "r' \<le> high" "reached r'" "\<forall>k. mid + 1 \<le> k \<and> k < r' \<longrightarrow> \<not> reached k"
      by blast
    have "\<forall>k. low \<le> k \<and> k < r' \<longrightarrow> \<not> reached k"
    proof (intro allI impI)
      fix k assume k: "low \<le> k \<and> k < r'"
      show "\<not> reached k"
      proof (cases "k \<le> mid")
        case True then show ?thesis using below k by blast
      next
        case False then show ?thesis using r'(5) k by auto
      qed
    qed
    then show ?thesis using eq r' range by (intro exI[of _ r']) auto
  qed
qed

text \<open>The probe of the example inputs, in closed form.\<close>

lemma reachedAt_saver: "reachedAt saver_inputs m = (40 \<le> m)"
  by (simp add: reachedAt_def projectPortfolio_def baseTarget_def saver_inputs_def Let_def
      js_sub_def js_ge_def js_eq_def js_or_def pow_finite_one)

lemma reachedAt_idle: "reachedAt idle_inputs m = False"
  by (simp add: reachedAt_def projectPortfolio_def baseTarget_def saver_inputs_def
      idle_inputs_def Let_def js_sub_def js_ge_def js_eq_def js_or_def pow_finite_one)

lemma binary_search_saver:
  "binary_search (reachedAt saver_inputs) 0 1200 1200 False = (40, True)"
proof -
  have mono: "\<forall>a b. 0 \<le> a \<and> a \<le> b \<and> b \<le> 1200 \<and> reachedAt saver_inputs a
                \<longrightarrow> reachedAt saver_inputs b"
    by (simp add: reachedAt_saver)
  have ex: "\<exists>m. 0 \<le> m \<and> m \<le> 1200 \<and> reachedAt saver_inputs m"
    by (intro exI[of _ 40]) (simp add: reachedAt_saver)
  from binary_search_least[OF mono ex, of 1200 False] obtain r where
    r: "binary_search (reachedAt saver_inputs) 0 1200 1200 False = (r, True)"
       "reachedAt saver_inputs r"
       "\<forall>k. 0 \<le> k \<and> k < r \<longrightarrow> \<not> reachedAt saver_inputs k"
    by blast
  from r(2) have "40 \<le> r" by (simp add: reachedAt_saver)
  moreover have "r \<le> 40"
  proof (rule ccontr)
    assume "\<not> r \<le> 40"
    then have "0 \<le> (40::int) \<and> 40 < r" by simp
    with r(3) have "\<not> reachedAt saver_inputs 40" by blast
    then show False by (simp add: reachedAt_saver)
  qed
  ultimately show ?thesis using r(1) by simp
qed


text \<open>
  C2. Root-finder minimality. For every test \<open>reached\<close> of the search (the inequality
  \<open>total >= target\<close> of a probe function at a month) that is monotone on the months 0 to
  1200 and holds at some month there, the binary search started as the source starts it
  (\<open>low = 0\<close>, \<open>high = 1200\<close>, \<open>result = 1200\<close>, \<open>found = false\<close>) ends with \<open>found\<close> set and
  with the least month of 0 to 1200 at which the test holds; at the month before it the
  test fails, unless the answer is 0.
\<close>

theorem root_finder_minimal:
  assumes "\<forall>a b. 0 \<le> a \<and> a \<le> b \<and> b \<le> 1200 \<and> reached a \<longrightarrow> reached b"
    and "\<exists>m. 0 \<le> m \<and> m \<le> 1200 \<and> reached m"
  shows "\<exists>r. binary_search reached 0 1200 1200 False = (r, True)
           \<and> 0 \<le> r \<and> r \<le> 1200 \<and> reached r
           \<and> (\<forall>m. 0 \<le> m \<and> m \<le> 1200 \<and> reached m \<longrightarrow> r \<le> m)
           \<and> (r = 0 \<or> \<not> reached (r - 1))"
proof -
  from binary_search_least[OF assms, of 1200 False] obtain r where
    r: "binary_search reached 0 1200 1200 False = (r, True)" "0 \<le> r" "r \<le> 1200" "reached r"
       "\<forall>k. 0 \<le> k \<and> k < r \<longrightarrow> \<not> reached k"
    by blast
  have "\<forall>m. 0 \<le> m \<and> m \<le> 1200 \<and> reached m \<longrightarrow> r \<le> m"
    using r(5) by (meson not_less)
  moreover have "r = 0 \<or> \<not> reached (r - 1)"
    using r(2,5) by (cases "r = 0") auto
  ultimately show ?thesis using r by blast
qed

text \<open>At \<open>saver_inputs\<close> the test is monotone and first holds at month 40.\<close>

theorem root_finder_minimal_witness:
  "binary_search (reachedAt saver_inputs) 0 1200 1200 False = (40, True)"
proof -
  have mono: "\<forall>a b. 0 \<le> a \<and> a \<le> b \<and> b \<le> 1200 \<and> reachedAt saver_inputs a
                \<longrightarrow> reachedAt saver_inputs b"
    by (simp add: reachedAt_saver)
  have ex: "\<exists>m. 0 \<le> m \<and> m \<le> 1200 \<and> reachedAt saver_inputs m"
    by (intro exI[of _ 40]) (simp add: reachedAt_saver)
  from root_finder_minimal[OF mono ex] obtain r where
    r: "binary_search (reachedAt saver_inputs) 0 1200 1200 False = (r, True)"
       "reachedAt saver_inputs r"
       "\<forall>m. 0 \<le> m \<and> m \<le> 1200 \<and> reachedAt saver_inputs m \<longrightarrow> r \<le> m"
    by blast
  from r(2) have "40 \<le> r" by (simp add: reachedAt_saver)
  moreover from r(3) have "r \<le> 40" by (simp add: reachedAt_saver)
  ultimately show ?thesis using r(1) by simp
qed

text \<open>
  The two functions that run the search. When the test is monotone on the months 0 to 1200
  and holds somewhere there, the month count they return is the least month at which it
  holds; \<open>calculateContributionTimeline\<close> answers month 0 before the loop.
\<close>

lemma timelineToFI_minimal:
  assumes "\<not> js_eq monthlySavings' (Num 0)"
    and "\<forall>a b. 0 \<le> a \<and> a \<le> b \<and> b \<le> 1200
           \<and> timelineReached currentSavings' monthlySavings' targetAmount (js_div annualRate (Num 12)) a
         \<longrightarrow> timelineReached currentSavings' monthlySavings' targetAmount (js_div annualRate (Num 12)) b"
    and "\<exists>m. 0 \<le> m \<and> m \<le> 1200
           \<and> timelineReached currentSavings' monthlySavings' targetAmount (js_div annualRate (Num 12)) m"
  shows "\<exists>r. totalMonths (calculateTimelineToFI currentSavings' monthlySavings' targetAmount annualRate)
               = Num (of_int r)
           \<and> 0 \<le> r \<and> r \<le> 1200
           \<and> timelineReached currentSavings' monthlySavings' targetAmount (js_div annualRate (Num 12)) r
           \<and> (\<forall>k. 0 \<le> k \<and> k < r
                \<longrightarrow> \<not> timelineReached currentSavings' monthlySavings' targetAmount
                        (js_div annualRate (Num 12)) k)"
proof -
  from binary_search_least[OF assms(2,3), of 1200 False] obtain r where
    r: "binary_search (timelineReached currentSavings' monthlySavings' targetAmount
           (js_div annualRate (Num 12))) 0 1200 1200 False = (r, True)"
       "0 \<le> r" "r \<le> 1200"
       "timelineReached currentSavings' monthlySavings' targetAmount (js_div annualRate (Num 12)) r"
       "\<forall>k. 0 \<le> k \<and> k < r
          \<longrightarrow> \<not> timelineReached currentSavings' monthlySavings' targetAmount
                  (js_div annualRate (Num 12)) k"
    by blast
  have "totalMonths (calculateTimelineToFI currentSavings' monthlySavings' targetAmount annualRate)
          = Num (of_int r)"
    using assms(1) r(1) by (simp add: calculateTimelineToFI_def Let_def)
  with r show ?thesis by blast
qed

lemma timelineToFI_search_decomposition:
  assumes "\<not> js_eq monthlySavings' (Num 0)"
  shows "totalMonths (calculateTimelineToFI currentSavings' monthlySavings' targetAmount annualRate)
           = js_add (js_mul (years (calculateTimelineToFI currentSavings' monthlySavings' targetAmount
                                      annualRate)) (Num 12))
                    (months (calculateTimelineToFI currentSavings' monthlySavings' targetAmount annualRate))
       \<and> js_le (Num 0)
            (months (calculateTimelineToFI currentSavings' monthlySavings' targetAmount annualRate))"
proof -
  obtain r f where bs: "binary_search (timelineReached currentSavings' monthlySavings' targetAmount
           (js_div annualRate (Num 12))) 0 1200 1200 False = (r, f)"
    by (cases "binary_search (timelineReached currentSavings' monthlySavings' targetAmount
           (js_div annualRate (Num 12))) 0 1200 1200 False") auto
  from binary_search_range[OF bs] have "0 \<le> r" by auto
  from months_decomposition[OF this] assms bs show ?thesis
    by (simp add: calculateTimelineToFI_def Let_def)
qed

lemma contribution_minimal:
  assumes "\<forall>a b. 0 \<le> a \<and> a \<le> b \<and> b \<le> 1200 \<and> reachedAt i a \<longrightarrow> reachedAt i b"
    and "\<exists>m. 0 \<le> m \<and> m \<le> 1200 \<and> reachedAt i m"
  shows "\<exists>r. totalMonthsToFI (calculateContributionTimeline i) = Num (of_int r)
           \<and> 0 \<le> r \<and> r \<le> 1200 \<and> reachedAt i r
           \<and> (\<forall>k. 0 \<le> k \<and> k < r \<longrightarrow> \<not> reachedAt i k)"
proof (cases "reachedAt i 0")
  case True
  then have "js_ge (total (projectPortfolio i (Num 0))) (target (projectPortfolio i (Num 0)))"
    by (simp add: reachedAt_def Let_def)
  then have "totalMonthsToFI (calculateContributionTimeline i) = Num (of_int 0)"
    by (simp add: calculateContributionTimeline_def Let_def)
  moreover have "\<forall>k::int. 0 \<le> k \<and> k < 0 \<longrightarrow> \<not> reachedAt i k" by linarith
  ultimately show ?thesis using True by (intro exI[of _ 0]) simp
next
  case False
  then have start: "\<not> js_ge (total (projectPortfolio i (Num 0))) (target (projectPortfolio i (Num 0)))"
    by (simp add: reachedAt_def Let_def)
  from binary_search_least[OF assms, of 1200 False] obtain r where
    r: "binary_search (reachedAt i) 0 1200 1200 False = (r, True)" "0 \<le> r" "r \<le> 1200"
       "reachedAt i r" "\<forall>k. 0 \<le> k \<and> k < r \<longrightarrow> \<not> reachedAt i k"
    by blast
  have "totalMonthsToFI (calculateContributionTimeline i) = Num (of_int r)"
    using start r(1) by (simp add: calculateContributionTimeline_def Let_def)
  with r show ?thesis by blast
qed

section \<open>Properties of the mode strategies\<close>

text \<open>The example inputs, evaluated.\<close>

lemma projectPortfolio_idle:
  "projectPortfolio idle_inputs (Num (of_int m))
     = \<lparr>total = Num 0, target = Num 400, savingsFutureValue = Num 0, investmentsFutureValue = Num 0\<rparr>"
  by (simp add: projectPortfolio_def baseTarget_def saver_inputs_def idle_inputs_def Let_def
      js_sub_def js_eq_def js_or_def pow_finite_one)

lemma projectPortfolio_saver:
  "projectPortfolio saver_inputs (Num (of_int m))
     = \<lparr>total = Num (10 * of_int m), target = Num 400,
        savingsFutureValue = Num (10 * of_int m), investmentsFutureValue = Num 0\<rparr>"
  by (simp add: projectPortfolio_def baseTarget_def saver_inputs_def Let_def
      js_sub_def js_eq_def js_or_def pow_finite_one)

lemma contribution_saver:
  "calculateContributionTimeline saver_inputs
     = \<lparr>requiredMonthlySavings = Num 10, futureValueOfCurrentSavings = Num 400,
        inflationAdjustedFINumber = Num 400, yearsToFI = Num 3, monthsToFI = Num 4,
        totalMonthsToFI = Num 40, calculatedFINumber = None, baseFINumber = Some (Num 400),
        suggestedMonthlySavings = Some (Num 10), suggestedMonthlyInvestment = Some (Num 0),
        totalFutureSavings = Some (Num 400), totalFutureInvestment = Some (Num 0),
        targetAtCompletion = Some (Num 400)\<rparr>"
proof -
  have p0: "projectPortfolio saver_inputs (Num 0) = \<lparr>total = Num 0, target = Num 400,
        savingsFutureValue = Num 0, investmentsFutureValue = Num 0\<rparr>"
    using projectPortfolio_saver[of 0] by simp
  have p40: "projectPortfolio saver_inputs (Num 40) = \<lparr>total = Num 400, target = Num 400,
        savingsFutureValue = Num 400, investmentsFutureValue = Num 0\<rparr>"
    using projectPortfolio_saver[of 40] by simp
  have base: "baseTarget saver_inputs = Num 400"
    by (simp add: baseTarget_def saver_inputs_def js_or_def)
  have contrib: "or_default (monthlySavings saver_inputs) (Num 0) = Num 10"
    "or_default (monthlyInvestment saver_inputs) (Num 0) = Num 0"
    by (simp_all add: saver_inputs_def js_or_def)
  show ?thesis
    by (simp add: calculateContributionTimeline_def Let_def p0 p40 base contrib
        binary_search_saver js_ge_def trunc_def)
qed


lemma goal_based_growth:
  "calculateFinancialIndependence growth_inputs GoalBased
     = \<lparr>requiredMonthlySavings = Num 10, futureValueOfCurrentSavings = Num 0,
        inflationAdjustedFINumber = Num 40950, yearsToFI = Num 1, monthsToFI = Num 0,
        totalMonthsToFI = Num 12, calculatedFINumber = None, baseFINumber = None,
        suggestedMonthlySavings = Some (Num 3), suggestedMonthlyInvestment = Some (Num 7),
        totalFutureSavings = Some (Num 12285), totalFutureInvestment = Some (Num 28665),
        targetAtCompletion = None\<rparr>"
  by (simp add: calculateFinancialIndependence_def growth_inputs_def Let_def js_or_def
      calculateFutureValue_def fvFactor_def pow_finite_def is_integral_def js_sub_def js_gt_def)

text \<open>
  In the goal-based strategy a zero savings rate, which is also the rate of an input
  without \<open>savingsInterestRate\<close>, makes the required contribution \<open>NaN\<close> whenever a
  contribution is needed.
\<close>

lemma goal_based_zero_savings_rate:
  assumes "or_default (savingsInterestRate i) (Num 0) = Num 0"
    and "js_gt (js_sub (targetFINumber i)
            (js_add (calculateFutureValue (currentSavings i) (Num 0) (timeHorizon i))
                    (calculateFutureValue (or_default (currentInvestments i) (Num 0))
                       (annualReturn i) (timeHorizon i)))) (Num 0)"
  shows "requiredMonthlySavings (calculateFinancialIndependence i GoalBased) = NaN"
  using assms
  by (simp add: calculateFinancialIndependence_def Let_def fvFactor_zero_rate)

text \<open>
  C1. Goal-based mode, zero rates. The claim is that with no assets, zero rates, a positive
  target and a positive horizon the required monthly contribution is
  \<open>targetFINumber / (timeHorizon * 12)\<close>. The goal-based strategy forms both annuity
  factors without a test of the rate, so at \<open>zero_rate_inputs\<close> (target 1200 over 1 year,
  where the claim gives 100) it returns \<open>NaN\<close>.
\<close>

theorem goal_based_zero_rate_is_NaN:
  "requiredMonthlySavings (calculateFinancialIndependence zero_rate_inputs GoalBased) = NaN"
  by (rule goal_based_zero_savings_rate)
     (simp_all add: zero_rate_inputs_def js_or_def calculateFutureValue_def pow_finite_one
        js_sub_def js_gt_def)

text \<open>
  C3. Unreached target. In contribution-based mode, when the test \<open>total >= target\<close> fails
  at every month from 0 to 1200, the result has \<open>yearsToFI\<close> and \<open>totalMonthsToFI\<close> equal to
  \<open>Infinity\<close>, and \<open>totalFutureSavings\<close>, \<open>totalFutureInvestment\<close> and \<open>targetAtCompletion\<close>
  are the values of the projection at month 1200.
\<close>

theorem unreached_target_reported:
  assumes "\<forall>m. 0 \<le> m \<and> m \<le> 1200 \<longrightarrow> \<not> reachedAt i m"
  shows "yearsToFI (calculateFinancialIndependence i ContributionBased) = PosInf
       \<and> totalMonthsToFI (calculateFinancialIndependence i ContributionBased) = PosInf
       \<and> totalFutureSavings (calculateFinancialIndependence i ContributionBased)
           = Some (savingsFutureValue (projectPortfolio i (Num 1200)))
       \<and> totalFutureInvestment (calculateFinancialIndependence i ContributionBased)
           = Some (investmentsFutureValue (projectPortfolio i (Num 1200)))
       \<and> targetAtCompletion (calculateFinancialIndependence i ContributionBased)
           = Some (target (projectPortfolio i (Num 1200)))"
proof -
  have bs: "binary_search (reachedAt i) 0 1200 1200 False = (1200, False)"
    using assms by (intro binary_search_none) auto
  from assms have "\<not> reachedAt i 0" by simp
  then have start: "\<not> js_ge (total (projectPortfolio i (Num 0))) (target (projectPortfolio i (Num 0)))"
    by (simp add: reachedAt_def Let_def)
  show ?thesis using bs start
    by (simp add: calculateFinancialIndependence_def calculateContributionTimeline_def Let_def)
qed

theorem unreached_target_reported_witness:
  "yearsToFI (calculateFinancialIndependence idle_inputs ContributionBased) = PosInf
   \<and> totalMonthsToFI (calculateFinancialIndependence idle_inputs ContributionBased) = PosInf
   \<and> totalFutureSavings (calculateFinancialIndependence idle_inputs ContributionBased) = Some (Num 0)
   \<and> totalFutureInvestment (calculateFinancialIndependence idle_inputs ContributionBased) = Some (Num 0)
   \<and> targetAtCompletion (calculateFinancialIndependence idle_inputs ContributionBased) = Some (Num 400)"
proof -
  have never: "\<forall>m. 0 \<le> m \<and> m \<le> 1200 \<longrightarrow> \<not> reachedAt idle_inputs m"
    by (simp add: reachedAt_idle)
  have p1200: "projectPortfolio idle_inputs (Num 1200) = \<lparr>total = Num 0, target = Num 400,
        savingsFutureValue = Num 0, investmentsFutureValue = Num 0\<rparr>"
    using projectPortfolio_idle[of 1200] by simp
  from unreached_target_reported[OF never] show ?thesis by (simp add: p1200)
qed

text \<open>
  C6. Time-based baseline. The baseline target of the time-based strategy is
  \<open>monthlyExpenses * 12 * 25\<close>, a function of \<open>monthlyExpenses\<close> alone; the future target is the
  baseline times \<open>(1 + inflationRate)\<close> to the power \<open>timeHorizon\<close>; the result keeps the first as
  \<open>baseFINumber\<close> and the second as \<open>calculatedFINumber\<close>. For finite inputs and a horizon of
  \<open>n\<close> whole years these are the real numbers \<open>e * 12 * 25\<close> and \<open>e * 12 * 25 * (1 + q) ^ n\<close>.
\<close>

theorem time_based_baseline:
  "baseFINumber (calculateFinancialIndependence i TimeBased)
     = Some (js_mul (js_mul (monthlyExpenses i) (Num 12)) (Num 25))
   \<and> calculatedFINumber (calculateFinancialIndependence i TimeBased)
     = Some (js_mul (js_mul (js_mul (monthlyExpenses i) (Num 12)) (Num 25))
               (js_pow (js_add (Num 1) (inflationRate i)) (timeHorizon i)))
   \<and> (\<forall>e q n. monthlyExpenses i = Num e \<and> inflationRate i = Num q \<and> timeHorizon i = Num (of_nat n)
        \<longrightarrow> baseFINumber (calculateFinancialIndependence i TimeBased) = Some (Num (e * 12 * 25))
          \<and> calculatedFINumber (calculateFinancialIndependence i TimeBased)
              = Some (Num (e * 12 * 25 * (1 + q) ^ n)))"
  by (simp add: calculateFinancialIndependence_def calculateTimeBasedStrategy_def Let_def
      split_def calculateInflationAdjustedAmount_def pow_finite_nat)

theorem time_based_baseline_witness:
  "baseFINumber (calculateFinancialIndependence inflating_inputs TimeBased) = Some (Num 15000)
   \<and> calculatedFINumber (calculateFinancialIndependence inflating_inputs TimeBased)
       = Some (Num 18150)"
proof -
  have inputs: "monthlyExpenses inflating_inputs = Num 50
      \<and> inflationRate inflating_inputs = Num (1 / 10)
      \<and> timeHorizon inflating_inputs = Num (of_nat 2)"
    by (simp add: inflating_inputs_def saver_inputs_def)
  from time_based_baseline[of inflating_inputs] have
    "\<forall>e q n. monthlyExpenses inflating_inputs = Num e \<and> inflationRate inflating_inputs = Num q
        \<and> timeHorizon inflating_inputs = Num (of_nat n)
        \<longrightarrow> baseFINumber (calculateFinancialIndependence inflating_inputs TimeBased)
              = Some (Num (e * 12 * 25))
          \<and> calculatedFINumber (calculateFinancialIndependence inflating_inputs TimeBased)
              = Some (Num (e * 12 * 25 * (1 + q) ^ n))"
    by blast
  with inputs have
    "baseFINumber (calculateFinancialIndependence inflating_inputs TimeBased)
       = Some (Num (50 * 12 * 25))
     \<and> calculatedFINumber (calculateFinancialIndependence inflating_inputs TimeBased)
       = Some (Num (50 * 12 * 25 * (1 + 1 / 10) ^ 2))"
    by blast
  then show ?thesis by (simp add: power2_eq_square)
qed

text \<open>What \<open>calculateFutureValue\<close> computes for finite arguments and whole years.\<close>

lemma calculateFutureValue_finite:
  "calculateFutureValue (Num p) (Num r) (Num (of_nat n)) = Num (p * (1 + r) ^ n)"
  by (simp add: calculateFutureValue_def pow_finite_nat)

text \<open>
  C7. Goal-based mode, for finite inputs and a horizon of \<open>n\<close> whole years. The future
  value of the current assets is \<open>s * (1 + rs) ^ n + v * (1 + ra) ^ n\<close>: the savings \<open>s\<close>
  compounded at the savings rate \<open>rs\<close> and the investments \<open>v\<close> at the annual return \<open>ra\<close>
  (an absent rate or pool counts as 0). When this sum is at least the target \<open>t\<close>, the
  required contribution, \<open>yearsToFI\<close> and \<open>totalMonthsToFI\<close> are 0; when it falls short,
  \<open>yearsToFI\<close> is the full \<open>timeHorizon\<close>.
\<close>

theorem goal_based_horizon_policy:
  assumes "currentSavings i = Num s"
    and "or_default (savingsInterestRate i) (Num 0) = Num rs"
    and "or_default (currentInvestments i) (Num 0) = Num v"
    and "annualReturn i = Num ra"
    and "timeHorizon i = Num (of_nat n)"
    and "targetFINumber i = Num t"
  shows "futureValueOfCurrentSavings (calculateFinancialIndependence i GoalBased)
           = Num (s * (1 + rs) ^ n + v * (1 + ra) ^ n)
       \<and> (t \<le> s * (1 + rs) ^ n + v * (1 + ra) ^ n \<longrightarrow>
            requiredMonthlySavings (calculateFinancialIndependence i GoalBased) = Num 0
          \<and> yearsToFI (calculateFinancialIndependence i GoalBased) = Num 0
          \<and> totalMonthsToFI (calculateFinancialIndependence i GoalBased) = Num 0)
       \<and> (s * (1 + rs) ^ n + v * (1 + ra) ^ n < t \<longrightarrow>
            yearsToFI (calculateFinancialIndependence i GoalBased) = Num (of_nat n))"
  using assms
  by (simp add: calculateFinancialIndependence_def Let_def split_def js_sub_def js_gt_def
      calculateFutureValue_finite)

text \<open>
  \<open>compound_inputs\<close> holds 100 at 100% and 10 at 200% for two years, which makes 490:
  enough for a target of 400, short of a target of 500.
\<close>

theorem goal_based_horizon_policy_witness:
  "futureValueOfCurrentSavings (calculateFinancialIndependence compound_inputs GoalBased) = Num 490
   \<and> requiredMonthlySavings (calculateFinancialIndependence compound_inputs GoalBased) = Num 0
   \<and> yearsToFI (calculateFinancialIndependence compound_inputs GoalBased) = Num 0
   \<and> totalMonthsToFI (calculateFinancialIndependence compound_inputs GoalBased) = Num 0
   \<and> futureValueOfCurrentSavings
       (calculateFinancialIndependence (compound_inputs\<lparr>targetFINumber := Num 500\<rparr>) GoalBased)
       = Num 490
   \<and> yearsToFI
       (calculateFinancialIndependence (compound_inputs\<lparr>targetFINumber := Num 500\<rparr>) GoalBased)
       = Num 2"
proof -
  have met: "futureValueOfCurrentSavings (calculateFinancialIndependence compound_inputs GoalBased)
           = Num (100 * (1 + 1) ^ 2 + 10 * (1 + 2) ^ 2)
       \<and> ((400::real) \<le> 100 * (1 + 1) ^ 2 + 10 * (1 + 2) ^ 2 \<longrightarrow>
            requiredMonthlySavings (calculateFinancialIndependence compound_inputs GoalBased) = Num 0
          \<and> yearsToFI (calculateFinancialIndependence compound_inputs GoalBased) = Num 0
          \<and> totalMonthsToFI (calculateFinancialIndependence compound_inputs GoalBased) = Num 0)"
    using goal_based_horizon_policy[of compound_inputs 100 1 10 2 2 400]
    by (simp add: compound_inputs_def js_or_def)
  have short: "futureValueOfCurrentSavings
         (calculateFinancialIndependence (compound_inputs\<lparr>targetFINumber := Num 500\<rparr>) GoalBased)
           = Num (100 * (1 + 1) ^ 2 + 10 * (1 + 2) ^ 2)
       \<and> (100 * (1 + 1) ^ 2 + 10 * (1 + 2) ^ 2 < (500::real) \<longrightarrow>
            yearsToFI (calculateFinancialIndependence (compound_inputs\<lparr>targetFINumber := Num 500\<rparr>)
               GoalBased) = Num (of_nat 2))"
    using goal_based_horizon_policy[of "compound_inputs\<lparr>targetFINumber := Num 500\<rparr>" 100 1 10 2 2 500]
    by (simp add: compound_inputs_def js_or_def)
  from met short show ?thesis by (simp add: power2_eq_square)
qed


text \<open>Doubles: the exponent of a value, the two literals, and the operations at 3.\<close>

lemma binary_exponent_eq:
  assumes "power_int 2 e \<le> \<bar>x\<bar>" and "\<bar>x\<bar> < power_int 2 (e + 1)"
  shows "binary_exponent x = e"
proof -
  have pos: "0 < \<bar>x\<bar>"
    using assms(1) zero_less_power_int[of "2::real" e] by linarith
  have p1: "(2::real) powr of_int e = power_int 2 e" by (rule powr_real_of_int') simp_all
  have p2: "(2::real) powr of_int (e + 1) = power_int 2 (e + 1)" by (rule powr_real_of_int') simp_all
  have lo: "of_int e \<le> log 2 \<bar>x\<bar>"
    using assms(1) pos by (simp add: le_log_iff p1)
  have "\<bar>x\<bar> < 2 powr of_int (e + 1)" using assms(2) by (simp only: p2)
  then have "log 2 \<bar>x\<bar> < of_int (e + 1)"
    using pos by (subst log_less_iff) simp_all
  then have hi: "log 2 \<bar>x\<bar> < of_int e + 1" by simp
  show ?thesis unfolding binary_exponent_def using lo hi by (rule floor_unique)
qed

lemma to_double_at:
  assumes "power_int 2 e \<le> \<bar>x\<bar>" and "\<bar>x\<bar> < power_int 2 (e + 1)"
  shows "to_double x = of_int (round_half_even (x * power_int 2 (52 - e))) * power_int 2 (e - 52)"
proof -
  have "0 < \<bar>x\<bar>" using assms(1) zero_less_power_int[of "2::real" e] by linarith
  then have "x \<noteq> 0" by simp
  then show ?thesis by (simp add: to_double_def binary_exponent_eq[OF assms])
qed

lemma double_three_tenths: "to_double (3 / 10) = 5404319552844595 / 18014398509481984"
  by (subst to_double_at[of "-2"]) (simp_all add: round_half_even_def Let_def)

lemma double_seven_tenths: "to_double (7 / 10) = 3152519739159347 / 4503599627370496"
  by (subst to_double_at[of "-1"]) (simp_all add: round_half_even_def Let_def)

lemma double_savings_of_3:
  "double_mul 3 (5404319552844595 / 18014398509481984) = 2026619832316723 / 2251799813685248"
  unfolding double_mul_def
  by (subst to_double_at[of "-1"]) (simp_all add: round_half_even_def Let_def)

lemma double_investment_of_3:
  "double_mul 3 (3152519739159347 / 4503599627370496) = 1182194902184755 / 562949953421312"
  unfolding double_mul_def
  by (subst to_double_at[of 1]) (simp_all add: round_half_even_def Let_def)

lemma double_sum_of_3:
  "double_add (2026619832316723 / 2251799813685248) (1182194902184755 / 562949953421312)
     = 6755399441055743 / 2251799813685248"
  unfolding double_add_def
  by (subst to_double_at[of 1]) (simp_all add: round_half_even_def Let_def)

lemma suggestedSumDouble_3: "suggestedSumDouble 3 = 6755399441055743 / 2251799813685248"
  by (simp only: suggestedSumDouble_def double_three_tenths double_seven_tenths
      double_savings_of_3 double_investment_of_3 double_sum_of_3)

lemma requiredDouble_split: "requiredDouble 12285 4095 4095 = 3"
proof -
  have a: "double_mul (5404319552844595 / 18014398509481984) 4095 = 2457 / 2"
    unfolding double_mul_def
    by (subst to_double_at[of 10]) (simp_all add: round_half_even_def Let_def)
  have b: "double_mul (3152519739159347 / 4503599627370496) 4095 = 5733 / 2"
    unfolding double_mul_def
    by (subst to_double_at[of 11]) (simp_all add: round_half_even_def Let_def)
  have c: "double_add (2457 / 2) (5733 / 2) = 4095"
    unfolding double_add_def
    by (subst to_double_at[of 11]) (simp_all add: round_half_even_def Let_def)
  have d: "double_div 12285 4095 = 3"
    unfolding double_div_def
    by (subst to_double_at[of 1]) (simp_all add: round_half_even_def Let_def)
  show ?thesis
    by (simp only: requiredDouble_def double_three_tenths double_seven_tenths a b c d)
qed

lemma goal_based_split:
  "requiredMonthlySavings (calculateFinancialIndependence split_inputs GoalBased) = Num 3"
  by (simp add: calculateFinancialIndependence_def split_inputs_def growth_inputs_def Let_def
      js_or_def calculateFutureValue_def fvFactor_def pow_finite_def is_integral_def js_sub_def
      js_gt_def)

lemma fvFactor_split: "fvFactor (Num 1) (Num 12) = Num 4095"
  by (simp add: fvFactor_def pow_finite_def is_integral_def js_sub_def)

text \<open>
  C8, as the code has it. In goal-based and time-based mode \<open>suggestedMonthlySavings\<close> is
  the product \<open>requiredMonthlySavings * 0.3\<close> and \<open>suggestedMonthlyInvestment\<close> the product
  \<open>requiredMonthlySavings * 0.7\<close>. In contribution-based mode the two are the user's
  \<open>monthlySavings\<close> and \<open>monthlyInvestment\<close> (0 when absent), and \<open>requiredMonthlySavings\<close>
  is their sum, formed by that one addition.
\<close>

theorem split_policy:
  "(m \<noteq> ContributionBased \<longrightarrow>
      suggestedMonthlySavings (calculateFinancialIndependence i m)
        = Some (js_mul (requiredMonthlySavings (calculateFinancialIndependence i m)) (Num (3 / 10)))
      \<and> suggestedMonthlyInvestment (calculateFinancialIndependence i m)
        = Some (js_mul (requiredMonthlySavings (calculateFinancialIndependence i m)) (Num (7 / 10))))
   \<and> (m = ContributionBased \<longrightarrow>
      suggestedMonthlySavings (calculateFinancialIndependence i m)
        = Some (or_default (monthlySavings i) (Num 0))
      \<and> suggestedMonthlyInvestment (calculateFinancialIndependence i m)
        = Some (or_default (monthlyInvestment i) (Num 0))
      \<and> requiredMonthlySavings (calculateFinancialIndependence i m)
        = js_add (or_default (monthlySavings i) (Num 0)) (or_default (monthlyInvestment i) (Num 0)))"
proof (cases m)
  case GoalBased
  then show ?thesis
    by (simp add: calculateFinancialIndependence_def Let_def split_def)
next
  case TimeBased
  then show ?thesis
    by (simp add: calculateFinancialIndependence_def calculateTimeBasedStrategy_def Let_def
        split_def)
next
  case ContributionBased
  then show ?thesis
    by (simp add: calculateFinancialIndependence_def calculateContributionTimeline_def Let_def
        split_def)
qed

theorem split_policy_witness:
  "suggestedMonthlySavings (calculateFinancialIndependence growth_inputs GoalBased) = Some (Num 3)
   \<and> suggestedMonthlyInvestment (calculateFinancialIndependence growth_inputs GoalBased) = Some (Num 7)
   \<and> suggestedMonthlySavings (calculateFinancialIndependence saver_inputs ContributionBased)
       = Some (Num 10)
   \<and> suggestedMonthlyInvestment (calculateFinancialIndependence saver_inputs ContributionBased)
       = Some (Num 0)
   \<and> requiredMonthlySavings (calculateFinancialIndependence saver_inputs ContributionBased)
       = Num 10"
proof -
  have req: "requiredMonthlySavings (calculateFinancialIndependence growth_inputs GoalBased) = Num 10"
    by (simp add: goal_based_growth)
  have contrib: "or_default (monthlySavings saver_inputs) (Num 0) = Num 10"
    "or_default (monthlyInvestment saver_inputs) (Num 0) = Num 0"
    by (simp_all add: saver_inputs_def js_or_def)
  from split_policy[of GoalBased growth_inputs] split_policy[of ContributionBased saver_inputs]
  show ?thesis by (simp add: req contrib)
qed

text \<open>
  The claim as it is written fails twice. In contribution-based mode, at \<open>saver_inputs\<close>,
  the suggested savings are the user's 10 a month, all of the combined contribution of 10
  and not 30% of it. In goal-based mode, at \<open>split_inputs\<close>, the two annuity factors are
  4095, the amount needed is 12285 and the required contribution is 3, in the model and in
  doubles alike; the doubles of the two products then add up to
  \<open>6755399441055743 / 2^51\<close>, which is 2.9999999999999996 and not 3.
\<close>

theorem split_policy_counterexample:
  "requiredMonthlySavings (calculateFinancialIndependence saver_inputs ContributionBased) = Num 10
   \<and> suggestedMonthlySavings (calculateFinancialIndependence saver_inputs ContributionBased)
       = Some (Num 10)
   \<and> suggestedMonthlySavings (calculateFinancialIndependence saver_inputs ContributionBased)
       \<noteq> Some (js_mul (requiredMonthlySavings
                          (calculateFinancialIndependence saver_inputs ContributionBased))
                       (Num (3 / 10)))
   \<and> requiredMonthlySavings (calculateFinancialIndependence split_inputs GoalBased) = Num 3
   \<and> fvFactor (Num 1) (Num 12) = Num 4095
   \<and> requiredDouble 12285 4095 4095 = 3
   \<and> suggestedSumDouble 3 = 6755399441055743 / 2251799813685248
   \<and> suggestedSumDouble 3 \<noteq> 3"
proof -
  have r: "calculateFinancialIndependence saver_inputs ContributionBased
             = calculateContributionTimeline saver_inputs"
    by (simp add: calculateFinancialIndependence_def)
  show ?thesis
    by (simp add: r contribution_saver goal_based_split fvFactor_split requiredDouble_split
        suggestedSumDouble_3)
qed


text \<open>
  C10. Duration decomposition. In every mode, when \<open>totalMonthsToFI\<close> is finite it equals
  \<open>yearsToFI * 12 + monthsToFI\<close>, and \<open>monthsToFI\<close> is not negative.
\<close>

theorem duration_decomposition:
  assumes "js_isFinite (totalMonthsToFI (calculateFinancialIndependence i m))"
  shows "totalMonthsToFI (calculateFinancialIndependence i m)
           = js_add (js_mul (yearsToFI (calculateFinancialIndependence i m)) (Num 12))
                    (monthsToFI (calculateFinancialIndependence i m))
       \<and> js_le (Num 0) (monthsToFI (calculateFinancialIndependence i m))"
proof (cases m)
  case GoalBased
  with assms show ?thesis
    by (simp add: calculateFinancialIndependence_def Let_def split_def js_add_zero_finite)
next
  case TimeBased
  with assms show ?thesis
    by (simp add: calculateFinancialIndependence_def calculateTimeBasedStrategy_def Let_def
        split_def js_add_zero_finite)
next
  case ContributionBased
  obtain r f where bs: "binary_search (reachedAt i) 0 1200 1200 False = (r, f)"
    by (cases "binary_search (reachedAt i) 0 1200 1200 False") auto
  from binary_search_range[OF bs] have rng: "f \<longrightarrow> 0 \<le> r" by auto
  show ?thesis
  proof (cases "js_ge (total (projectPortfolio i (Num 0))) (target (projectPortfolio i (Num 0)))")
    case True
    with ContributionBased show ?thesis
      by (simp add: calculateFinancialIndependence_def calculateContributionTimeline_def Let_def)
  next
    case False
    show ?thesis
    proof (cases f)
      case True
      with rng have "0 \<le> r" by simp
      from months_decomposition[OF this] ContributionBased False True bs show ?thesis
        by (simp add: calculateFinancialIndependence_def calculateContributionTimeline_def Let_def)
    next
      case nf: False
      with ContributionBased False bs assms show ?thesis
        by (simp add: calculateFinancialIndependence_def calculateContributionTimeline_def Let_def)
    qed
  qed
qed

text \<open>At \<open>saver_inputs\<close>: 40 months are 3 years and 4 months.\<close>

theorem duration_decomposition_witness:
  "js_isFinite (totalMonthsToFI (calculateFinancialIndependence saver_inputs ContributionBased))
   \<and> totalMonthsToFI (calculateFinancialIndependence saver_inputs ContributionBased) = Num 40
   \<and> yearsToFI (calculateFinancialIndependence saver_inputs ContributionBased) = Num 3
   \<and> monthsToFI (calculateFinancialIndependence saver_inputs ContributionBased) = Num 4
   \<and> js_le (Num 0) (monthsToFI (calculateFinancialIndependence saver_inputs ContributionBased))"
proof -
  have r: "calculateFinancialIndependence saver_inputs ContributionBased
             = calculateContributionTimeline saver_inputs"
    by (simp add: calculateFinancialIndependence_def)
  have fin: "js_isFinite (totalMonthsToFI (calculateFinancialIndependence saver_inputs ContributionBased))"
    by (simp add: r contribution_saver)
  from duration_decomposition[OF fin] fin show ?thesis
    by (simp add: r contribution_saver)
qed

section \<open>Properties of the contribution-based target\<close>

lemma pow_finite_int: "0 \<le> m \<Longrightarrow> pow_finite x (of_int m) = Num (x ^ nat m)"
  using pow_finite_nat[of x "nat m"] by simp

lemma pow_finite_twelfth: "0 < x \<Longrightarrow> pow_finite x (1 / 12) = Num (x powr (1 / 12))"
  by (simp add: pow_finite_def is_integral_def)

lemma twelfth_root_power: "0 < x \<Longrightarrow> (x powr (1 / 12)) ^ 12 = (x::real)"
proof -
  assume pos: "0 < x"
  have "(x powr (1 / 12)) ^ 12 = (x powr (1 / 12)) powr (real 12)"
    using pos by (intro powr_realpow[symmetric]) auto
  also have "\<dots> = x powr ((1 / 12) * real 12)" by (rule powr_powr)
  also have "\<dots> = x" using pos by simp
  finally show ?thesis .
qed

text \<open>
  C4. Contribution-based target, for a \<open>targetFINumber\<close> that is a number (not \<open>NaN\<close>):
  the baseline, kept as \<open>baseFINumber\<close>, is \<open>targetFINumber\<close> when it is not zero and
  \<open>monthlyExpenses * 12 * 25\<close> otherwise; the target of the projection at \<open>months'\<close> is the
  baseline times \<open>(1 + r)\<close> to the power \<open>months'\<close>, where \<open>r\<close> is
  \<open>Math.pow(1 + inflationRate, 1 / 12) - 1\<close>. For a finite baseline \<open>b\<close>, an inflation rate
  \<open>q\<close> above \<open>-1\<close> and a whole month \<open>m\<close> from 0 this is the real number
  \<open>b * (1 + ((1 + q) powr (1 / 12) - 1)) ^ m\<close>.
\<close>

theorem contribution_target:
  assumes "targetFINumber i \<noteq> NaN"
  shows "baseFINumber (calculateFinancialIndependence i ContributionBased)
           = Some (if targetFINumber i = Num 0
                   then js_mul (js_mul (monthlyExpenses i) (Num 12)) (Num 25)
                   else targetFINumber i)
       \<and> target (projectPortfolio i months')
           = js_mul (if targetFINumber i = Num 0
                     then js_mul (js_mul (monthlyExpenses i) (Num 12)) (Num 25)
                     else targetFINumber i)
                    (js_pow (js_add (Num 1)
                               (js_sub (js_pow (js_add (Num 1) (inflationRate i)) (Num (1 / 12)))
                                       (Num 1)))
                            months')
       \<and> (\<forall>b q m. (if targetFINumber i = Num 0
                    then js_mul (js_mul (monthlyExpenses i) (Num 12)) (Num 25)
                    else targetFINumber i) = Num b
                 \<and> inflationRate i = Num q \<and> - 1 < q \<and> 0 \<le> m
            \<longrightarrow> target (projectPortfolio i (Num (of_int m)))
                  = Num (b * (1 + ((1 + q) powr (1 / 12) - 1)) ^ nat m))"
proof -
  have base: "baseTarget i = (if targetFINumber i = Num 0
                   then js_mul (js_mul (monthlyExpenses i) (Num 12)) (Num 25)
                   else targetFINumber i)"
    using assms by (cases "targetFINumber i") (simp_all add: baseTarget_def js_or_def)
  have res: "baseFINumber (calculateFinancialIndependence i ContributionBased) = Some (baseTarget i)"
    by (simp add: calculateFinancialIndependence_def calculateContributionTimeline_def Let_def
        split_def)
  have tgt: "\<And>k. target (projectPortfolio i k)
           = js_mul (baseTarget i)
                    (js_pow (js_add (Num 1)
                               (js_sub (js_pow (js_add (Num 1) (inflationRate i)) (Num (1 / 12)))
                                       (Num 1)))
                            k)"
    by (simp add: projectPortfolio_def Let_def)
  have fin: "\<forall>b q m. baseTarget i = Num b \<and> inflationRate i = Num q \<and> - 1 < q \<and> 0 \<le> m
            \<longrightarrow> target (projectPortfolio i (Num (of_int m)))
                  = Num (b * (1 + ((1 + q) powr (1 / 12) - 1)) ^ nat m)"
    by (simp add: tgt js_sub_def pow_finite_twelfth pow_finite_int)
  show ?thesis using res tgt fin unfolding base by blast
qed

text \<open>
  At 10% inflation twelve months at the monthly-equivalent rate are one year of inflation:
  400 becomes 440 (a monthly rate of \<open>inflationRate / 12\<close> would give more).
\<close>

theorem contribution_target_witness:
  "baseFINumber (calculateFinancialIndependence inflating_inputs ContributionBased) = Some (Num 400)
   \<and> target (projectPortfolio inflating_inputs (Num 12)) = Num 440"
proof -
  have nn: "targetFINumber inflating_inputs \<noteq> NaN"
    by (simp add: inflating_inputs_def saver_inputs_def)
  have inputs: "(if targetFINumber inflating_inputs = Num 0
                 then js_mul (js_mul (monthlyExpenses inflating_inputs) (Num 12)) (Num 25)
                 else targetFINumber inflating_inputs) = Num 400
      \<and> inflationRate inflating_inputs = Num (1 / 10) \<and> - 1 < (1 / 10 :: real) \<and> (0::int) \<le> 12"
    by (simp add: inflating_inputs_def saver_inputs_def)
  from contribution_target[OF nn, of "Num 12"] have
    b: "baseFINumber (calculateFinancialIndependence inflating_inputs ContributionBased)
          = Some (if targetFINumber inflating_inputs = Num 0
                 then js_mul (js_mul (monthlyExpenses inflating_inputs) (Num 12)) (Num 25)
                 else targetFINumber inflating_inputs)"
    and a: "\<forall>b q m. (if targetFINumber inflating_inputs = Num 0
                 then js_mul (js_mul (monthlyExpenses inflating_inputs) (Num 12)) (Num 25)
                 else targetFINumber inflating_inputs) = Num b
                 \<and> inflationRate inflating_inputs = Num q \<and> - 1 < q \<and> 0 \<le> m
            \<longrightarrow> target (projectPortfolio inflating_inputs (Num (of_int m)))
                  = Num (b * (1 + ((1 + q) powr (1 / 12) - 1)) ^ nat m)"
    by blast+
  from a inputs have "target (projectPortfolio inflating_inputs (Num (of_int 12)))
      = Num (400 * (1 + ((1 + 1 / 10) powr (1 / 12) - 1)) ^ nat 12)"
    by blast
  moreover have "(1 + ((1 + 1 / 10) powr (1 / 12) - 1)) ^ nat 12 = (11 / 10 :: real)"
    using twelfth_root_power[of "11 / 10"] by simp
  ultimately have "target (projectPortfolio inflating_inputs (Num 12)) = Num 440" by simp
  with b inputs show ?thesis by simp
qed

section \<open>Properties of the timeline generator\<close>


lemma year_loop_nth:
  "k < length (year_loop targetAmount rate step bound y v) \<Longrightarrow>
     year_loop targetAmount rate step bound y v ! k
       = \<lparr>year = Num (of_int (y + int k)),
          savings = js_round (js_add (snd ((step ^^ k) v)) (fst ((step ^^ k) v))),
          targetValue = calculateInflationAdjustedAmount targetAmount rate (Num (of_int (y + int k)))\<rparr>"
proof (induction k arbitrary: y v)
  case 0
  show ?case
  proof (cases "of_int y \<le> bound")
    case True
    then show ?thesis by (subst year_loop.simps) simp
  next
    case False
    then have "year_loop targetAmount rate step bound y v = []" by (subst year_loop.simps) simp
    with "0.prems" show ?thesis by simp
  qed
next
  case (Suc k)
  show ?case
  proof (cases "of_int y \<le> bound")
    case True
    then have unfold: "year_loop targetAmount rate step bound y v
        = \<lparr>year = Num (of_int y),
           savings = js_round (js_add (snd v) (fst v)),
           targetValue = calculateInflationAdjustedAmount targetAmount rate (Num (of_int y))\<rparr>
          # year_loop targetAmount rate step bound (y + 1) (step v)"
      by (subst year_loop.simps) simp
    with Suc.prems have "k < length (year_loop targetAmount rate step bound (y + 1) (step v))"
      by simp
    from Suc.IH[OF this] unfold show ?thesis
      by (simp add: funpow_swap1 add_ac)
  next
    case False
    then have "year_loop targetAmount rate step bound y v = []" by (subst year_loop.simps) simp
    with Suc.prems show ?thesis by simp
  qed
qed

lemma timeline_series:
  assumes "yearsToProject i m results = Num h"
  shows "generateTimelineData i m results
           = Some (year_loop (timelineTargetAmount i m results) (inflationRate i)
                     (month_loop (js_div (or_default (savingsInterestRate i) (Num 0)) (Num 12))
                        (js_div (annualReturn i) (Num 12))
                        (fst (timelineContributions i m results))
                        (snd (timelineContributions i m results)) 12)
                     h 0 (currentSavings i, or_default (currentInvestments i) (Num 0)))"
  using assms by (simp add: generateTimelineData_def Let_def split_def)













text \<open>
  The baseline of the target series, when the results are those of the same mode: the
  user's target in goal-based mode, the 25-fold annual expenses in time-based mode, the
  baseline of the strategy in contribution-based mode.
\<close>

lemma timelineTargetAmount_goal:
  "timelineTargetAmount i GoalBased results = targetFINumber i"
  by (simp add: timelineTargetAmount_def Let_def split: option.splits)

lemma timelineTargetAmount_time:
  "timelineTargetAmount i TimeBased (Some (calculateFinancialIndependence i TimeBased))
     = js_mul (js_mul (monthlyExpenses i) (Num 12)) (Num 25)"
  by (simp add: timelineTargetAmount_def calculateFinancialIndependence_def
      calculateTimeBasedStrategy_def Let_def split_def js_or_def)

lemma timelineTargetAmount_contribution:
  "truthy (baseTarget i) \<Longrightarrow>
     timelineTargetAmount i ContributionBased (Some (calculateFinancialIndependence i ContributionBased))
       = baseTarget i"
  by (simp add: timelineTargetAmount_def calculateFinancialIndependence_def
      calculateContributionTimeline_def Let_def split_def js_or_def)

lemma js_round_nearest:
  "js_round (Num x) = Num (of_int \<lfloor>x + 1 / 2\<rfloor>) \<and> \<bar>of_int \<lfloor>x + 1 / 2\<rfloor> - x\<bar> \<le> 1 / 2"
proof -
  have "of_int \<lfloor>x + 1 / 2\<rfloor> \<le> x + 1 / 2" by (rule of_int_floor_le)
  moreover have "x + 1 / 2 < of_int \<lfloor>x + 1 / 2\<rfloor> + 1" by (rule real_of_int_floor_add_one_gt)
  ultimately have "\<bar>of_int \<lfloor>x + 1 / 2\<rfloor> - x\<bar> \<le> 1 / 2" by linarith
  then show ?thesis by simp
qed

text \<open>
  C9. Timeline output conventions. In the sample of year \<open>k\<close> of every generated series,
  \<open>savings\<close> (the total assets) is \<open>Math.round\<close> of the sum of the two pools after \<open>k\<close> years of
  monthly steps, which for a finite sum is a whole number at most a half away from it; the
  target is the product of the mode's baseline (\<open>targetAmount\<close> of the source) and
  \<open>(1 + inflationRate)\<close> to the power of the sample's year, with no rounding: for finite
  inputs the real number \<open>b * (1 + q) ^ k\<close>. The baseline is \<open>targetFINumber\<close> in goal-based
  mode and, with the results of the same mode, \<open>monthlyExpenses * 12 * 25\<close> in time-based
  mode and the baseline of the strategy in contribution-based mode.
\<close>

theorem timeline_conventions:
  assumes "generateTimelineData i m results = Some series"
    and "k < length series"
  shows "year (series ! k) = Num (of_nat k)
       \<and> savings (series ! k)
           = js_round (js_add (snd (timelineValues i m results k)) (fst (timelineValues i m results k)))
       \<and> (\<forall>x. js_add (snd (timelineValues i m results k)) (fst (timelineValues i m results k)) = Num x
            \<longrightarrow> (\<exists>n::int. savings (series ! k) = Num (of_int n) \<and> \<bar>of_int n - x\<bar> \<le> 1 / 2))
       \<and> targetValue (series ! k)
           = js_mul (timelineTargetAmount i m results)
               (js_pow (js_add (Num 1) (inflationRate i)) (year (series ! k)))
       \<and> (\<forall>b q. timelineTargetAmount i m results = Num b \<and> inflationRate i = Num q
            \<longrightarrow> targetValue (series ! k) = Num (b * (1 + q) ^ k))
       \<and> (m = GoalBased \<longrightarrow> timelineTargetAmount i m results = targetFINumber i)
       \<and> (m = TimeBased \<and> results = Some (calculateFinancialIndependence i TimeBased)
            \<longrightarrow> timelineTargetAmount i m results
                  = js_mul (js_mul (monthlyExpenses i) (Num 12)) (Num 25))
       \<and> (m = ContributionBased \<and> results = Some (calculateFinancialIndependence i ContributionBased)
              \<and> truthy (baseTarget i)
            \<longrightarrow> timelineTargetAmount i m results = baseTarget i)"
proof -
  obtain h where h: "yearsToProject i m results = Num h"
    using assms
    by (cases "yearsToProject i m results") (auto simp: generateTimelineData_def Let_def split_def)
  define step where "step = month_loop (js_div (or_default (savingsInterestRate i) (Num 0)) (Num 12))
                        (js_div (annualReturn i) (Num 12))
                        (fst (timelineContributions i m results))
                        (snd (timelineContributions i m results)) 12"
  define v0 where "v0 = (currentSavings i, or_default (currentInvestments i) (Num 0))"
  have series: "series = year_loop (timelineTargetAmount i m results) (inflationRate i) step h 0 v0"
    using timeline_series[OF h] assms(1) by (simp add: step_def v0_def)
  have tv: "timelineValues i m results k = (step ^^ k) v0"
    by (simp add: timelineValues_def Let_def split_def step_def v0_def)
  have nth: "series ! k
       = \<lparr>year = Num (of_int (0 + int k)),
          savings = js_round (js_add (snd ((step ^^ k) v0)) (fst ((step ^^ k) v0))),
          targetValue = calculateInflationAdjustedAmount (timelineTargetAmount i m results)
                          (inflationRate i) (Num (of_int (0 + int k)))\<rparr>"
    using assms(2) unfolding series by (rule year_loop_nth)
  have y: "year (series ! k) = Num (of_nat k)" by (simp add: nth)
  have s: "savings (series ! k)
           = js_round (js_add (snd (timelineValues i m results k)) (fst (timelineValues i m results k)))"
    by (simp add: nth tv)
  have near: "\<forall>x. js_add (snd (timelineValues i m results k)) (fst (timelineValues i m results k)) = Num x
            \<longrightarrow> (\<exists>n::int. savings (series ! k) = Num (of_int n) \<and> \<bar>of_int n - x\<bar> \<le> 1 / 2)"
  proof (intro allI impI)
    fix x
    assume "js_add (snd (timelineValues i m results k)) (fst (timelineValues i m results k)) = Num x"
    with s have "savings (series ! k) = js_round (Num x)" by simp
    with js_round_nearest[of x] show "\<exists>n::int. savings (series ! k) = Num (of_int n) \<and> \<bar>of_int n - x\<bar> \<le> 1 / 2"
      by (intro exI[of _ "\<lfloor>x + 1 / 2\<rfloor>"]) simp
  qed
  have t: "targetValue (series ! k)
           = js_mul (timelineTargetAmount i m results)
               (js_pow (js_add (Num 1) (inflationRate i)) (year (series ! k)))"
    by (simp add: nth calculateInflationAdjustedAmount_def)
  have fin: "\<forall>b q. timelineTargetAmount i m results = Num b \<and> inflationRate i = Num q
            \<longrightarrow> targetValue (series ! k) = Num (b * (1 + q) ^ k)"
    by (simp add: t y pow_finite_nat)
  have goal: "m = GoalBased \<longrightarrow> timelineTargetAmount i m results = targetFINumber i"
    by (simp add: timelineTargetAmount_goal)
  have time: "m = TimeBased \<and> results = Some (calculateFinancialIndependence i TimeBased)
            \<longrightarrow> timelineTargetAmount i m results
                  = js_mul (js_mul (monthlyExpenses i) (Num 12)) (Num 25)"
    by (simp add: timelineTargetAmount_time)
  have contrib: "m = ContributionBased \<and> results = Some (calculateFinancialIndependence i ContributionBased)
              \<and> truthy (baseTarget i)
            \<longrightarrow> timelineTargetAmount i m results = baseTarget i"
    by (simp add: timelineTargetAmount_contribution)
  from y s near t fin goal time contrib show ?thesis by blast
qed

lemma timeline_chart:
  "generateTimelineData chart_inputs ContributionBased None
     = Some [\<lparr>year = Num 0, savings = Num 3, targetValue = Num (1001 / 2)\<rparr>,
             \<lparr>year = Num 1, savings = Num 123, targetValue = Num (11011 / 20)\<rparr>,
             \<lparr>year = Num 2, savings = Num 243, targetValue = Num (121121 / 200)\<rparr>]"
proof -
  have y: "yearsToProject chart_inputs ContributionBased None = Num 2"
    by (simp add: yearsToProject_def chart_inputs_def inflating_inputs_def saver_inputs_def)
  show ?thesis
    unfolding timeline_series[OF y]
    by (simp add: year_loop.simps timelineTargetAmount_def timelineContributions_def
        chart_inputs_def inflating_inputs_def saver_inputs_def js_or_def Let_def
        calculateInflationAdjustedAmount_def pow_finite_def is_integral_def eval_nat_numeral)
qed

text \<open>
  At \<open>chart_inputs\<close> the pools hold 122.5 after one year, shown as 123, and the target of
  500.5 is 550.55 after one year of 10% inflation.
\<close>

theorem timeline_conventions_witness:
  "\<exists>series. generateTimelineData chart_inputs ContributionBased None = Some series
     \<and> 1 < length series
     \<and> js_add (snd (timelineValues chart_inputs ContributionBased None 1))
              (fst (timelineValues chart_inputs ContributionBased None 1)) = Num (245 / 2)
     \<and> savings (series ! 1) = Num 123
     \<and> timelineTargetAmount chart_inputs ContributionBased None = Num (1001 / 2)
     \<and> targetValue (series ! 1) = Num (11011 / 20)"
proof -
  define series where "series = [\<lparr>year = Num 0, savings = Num 3, targetValue = Num (1001 / 2)\<rparr>,
             \<lparr>year = Num 1, savings = Num 123, targetValue = Num (11011 / 20)\<rparr>,
             \<lparr>year = Num 2, savings = Num 243, targetValue = Num (121121 / 200)\<rparr>]"
  have gen: "generateTimelineData chart_inputs ContributionBased None = Some series"
    by (simp add: timeline_chart series_def)
  have len: "1 < length series" by (simp add: series_def)
  have tv: "timelineValues chart_inputs ContributionBased None 1 = (Num (245 / 2), Num 0)"
    by (simp add: timelineValues_def timelineContributions_def chart_inputs_def
        inflating_inputs_def saver_inputs_def js_or_def Let_def eval_nat_numeral)
  have ta: "timelineTargetAmount chart_inputs ContributionBased None = Num (1001 / 2)"
    by (simp add: timelineTargetAmount_def chart_inputs_def inflating_inputs_def saver_inputs_def Let_def)
  have q: "inflationRate chart_inputs = Num (1 / 10)"
    by (simp add: chart_inputs_def inflating_inputs_def saver_inputs_def)
  from timeline_conventions[OF gen len] have
    s: "savings (series ! 1)
          = js_round (js_add (snd (timelineValues chart_inputs ContributionBased None 1))
                             (fst (timelineValues chart_inputs ContributionBased None 1)))"
    and t: "\<forall>b q. timelineTargetAmount chart_inputs ContributionBased None = Num b
              \<and> inflationRate chart_inputs = Num q
            \<longrightarrow> targetValue (series ! 1) = Num (b * (1 + q) ^ 1)"
    by blast+
  from s tv have "savings (series ! 1) = Num 123" by simp
  moreover from t ta q have "targetValue (series ! 1) = Num (1001 / 2 * (1 + 1 / 10) ^ 1)"
    by blast
  ultimately show ?thesis using gen len tv ta by (intro exI[of _ series]) simp
qed

end
